theory Spec2Isabelle
  imports Main "HOL-Library.Word"
begin

unbundle bit_operations_syntax

section \<open>The AES block cipher of the Go standard library\<close>

text \<open>
  The program decrypts with \<^verbatim>\<open>crypto/aes\<close>: \<^verbatim>\<open>aes.NewCipher(key)\<close> followed by
  \<^verbatim>\<open>cipher.Decrypt(dst, src)\<close>, which decrypts the first 16 bytes of \<^verbatim>\<open>src\<close> into the
  first 16 bytes of \<^verbatim>\<open>dst\<close>. The library is not part of the repository; its block
  function is modelled here as the inverse cipher of FIPS-197 (sections 5.2 and 5.3),
  for the three key sizes the library accepts, and checked against the example
  vectors of FIPS-197, appendix C, below.
\<close>

type_synonym byte = "8 word"

definition sbox_table :: "byte list" where
  "sbox_table = [
     0x63, 0x7c, 0x77, 0x7b, 0xf2, 0x6b, 0x6f, 0xc5, 0x30, 0x01, 0x67, 0x2b, 0xfe, 0xd7, 0xab, 0x76,
     0xca, 0x82, 0xc9, 0x7d, 0xfa, 0x59, 0x47, 0xf0, 0xad, 0xd4, 0xa2, 0xaf, 0x9c, 0xa4, 0x72, 0xc0,
     0xb7, 0xfd, 0x93, 0x26, 0x36, 0x3f, 0xf7, 0xcc, 0x34, 0xa5, 0xe5, 0xf1, 0x71, 0xd8, 0x31, 0x15,
     0x04, 0xc7, 0x23, 0xc3, 0x18, 0x96, 0x05, 0x9a, 0x07, 0x12, 0x80, 0xe2, 0xeb, 0x27, 0xb2, 0x75,
     0x09, 0x83, 0x2c, 0x1a, 0x1b, 0x6e, 0x5a, 0xa0, 0x52, 0x3b, 0xd6, 0xb3, 0x29, 0xe3, 0x2f, 0x84,
     0x53, 0xd1, 0x00, 0xed, 0x20, 0xfc, 0xb1, 0x5b, 0x6a, 0xcb, 0xbe, 0x39, 0x4a, 0x4c, 0x58, 0xcf,
     0xd0, 0xef, 0xaa, 0xfb, 0x43, 0x4d, 0x33, 0x85, 0x45, 0xf9, 0x02, 0x7f, 0x50, 0x3c, 0x9f, 0xa8,
     0x51, 0xa3, 0x40, 0x8f, 0x92, 0x9d, 0x38, 0xf5, 0xbc, 0xb6, 0xda, 0x21, 0x10, 0xff, 0xf3, 0xd2,
     0xcd, 0x0c, 0x13, 0xec, 0x5f, 0x97, 0x44, 0x17, 0xc4, 0xa7, 0x7e, 0x3d, 0x64, 0x5d, 0x19, 0x73,
     0x60, 0x81, 0x4f, 0xdc, 0x22, 0x2a, 0x90, 0x88, 0x46, 0xee, 0xb8, 0x14, 0xde, 0x5e, 0x0b, 0xdb,
     0xe0, 0x32, 0x3a, 0x0a, 0x49, 0x06, 0x24, 0x5c, 0xc2, 0xd3, 0xac, 0x62, 0x91, 0x95, 0xe4, 0x79,
     0xe7, 0xc8, 0x37, 0x6d, 0x8d, 0xd5, 0x4e, 0xa9, 0x6c, 0x56, 0xf4, 0xea, 0x65, 0x7a, 0xae, 0x08,
     0xba, 0x78, 0x25, 0x2e, 0x1c, 0xa6, 0xb4, 0xc6, 0xe8, 0xdd, 0x74, 0x1f, 0x4b, 0xbd, 0x8b, 0x8a,
     0x70, 0x3e, 0xb5, 0x66, 0x48, 0x03, 0xf6, 0x0e, 0x61, 0x35, 0x57, 0xb9, 0x86, 0xc1, 0x1d, 0x9e,
     0xe1, 0xf8, 0x98, 0x11, 0x69, 0xd9, 0x8e, 0x94, 0x9b, 0x1e, 0x87, 0xe9, 0xce, 0x55, 0x28, 0xdf,
     0x8c, 0xa1, 0x89, 0x0d, 0xbf, 0xe6, 0x42, 0x68, 0x41, 0x99, 0x2d, 0x0f, 0xb0, 0x54, 0xbb, 0x16]"

definition inv_sbox_table :: "byte list" where
  "inv_sbox_table = [
     0x52, 0x09, 0x6a, 0xd5, 0x30, 0x36, 0xa5, 0x38, 0xbf, 0x40, 0xa3, 0x9e, 0x81, 0xf3, 0xd7, 0xfb,
     0x7c, 0xe3, 0x39, 0x82, 0x9b, 0x2f, 0xff, 0x87, 0x34, 0x8e, 0x43, 0x44, 0xc4, 0xde, 0xe9, 0xcb,
     0x54, 0x7b, 0x94, 0x32, 0xa6, 0xc2, 0x23, 0x3d, 0xee, 0x4c, 0x95, 0x0b, 0x42, 0xfa, 0xc3, 0x4e,
     0x08, 0x2e, 0xa1, 0x66, 0x28, 0xd9, 0x24, 0xb2, 0x76, 0x5b, 0xa2, 0x49, 0x6d, 0x8b, 0xd1, 0x25,
     0x72, 0xf8, 0xf6, 0x64, 0x86, 0x68, 0x98, 0x16, 0xd4, 0xa4, 0x5c, 0xcc, 0x5d, 0x65, 0xb6, 0x92,
     0x6c, 0x70, 0x48, 0x50, 0xfd, 0xed, 0xb9, 0xda, 0x5e, 0x15, 0x46, 0x57, 0xa7, 0x8d, 0x9d, 0x84,
     0x90, 0xd8, 0xab, 0x00, 0x8c, 0xbc, 0xd3, 0x0a, 0xf7, 0xe4, 0x58, 0x05, 0xb8, 0xb3, 0x45, 0x06,
     0xd0, 0x2c, 0x1e, 0x8f, 0xca, 0x3f, 0x0f, 0x02, 0xc1, 0xaf, 0xbd, 0x03, 0x01, 0x13, 0x8a, 0x6b,
     0x3a, 0x91, 0x11, 0x41, 0x4f, 0x67, 0xdc, 0xea, 0x97, 0xf2, 0xcf, 0xce, 0xf0, 0xb4, 0xe6, 0x73,
     0x96, 0xac, 0x74, 0x22, 0xe7, 0xad, 0x35, 0x85, 0xe2, 0xf9, 0x37, 0xe8, 0x1c, 0x75, 0xdf, 0x6e,
     0x47, 0xf1, 0x1a, 0x71, 0x1d, 0x29, 0xc5, 0x89, 0x6f, 0xb7, 0x62, 0x0e, 0xaa, 0x18, 0xbe, 0x1b,
     0xfc, 0x56, 0x3e, 0x4b, 0xc6, 0xd2, 0x79, 0x20, 0x9a, 0xdb, 0xc0, 0xfe, 0x78, 0xcd, 0x5a, 0xf4,
     0x1f, 0xdd, 0xa8, 0x33, 0x88, 0x07, 0xc7, 0x31, 0xb1, 0x12, 0x10, 0x59, 0x27, 0x80, 0xec, 0x5f,
     0x60, 0x51, 0x7f, 0xa9, 0x19, 0xb5, 0x4a, 0x0d, 0x2d, 0xe5, 0x7a, 0x9f, 0x93, 0xc9, 0x9c, 0xef,
     0xa0, 0xe0, 0x3b, 0x4d, 0xae, 0x2a, 0xf5, 0xb0, 0xc8, 0xeb, 0xbb, 0x3c, 0x83, 0x53, 0x99, 0x61,
     0x17, 0x2b, 0x04, 0x7e, 0xba, 0x77, 0xd6, 0x26, 0xe1, 0x69, 0x14, 0x63, 0x55, 0x21, 0x0c, 0x7d]"

definition sbox :: "byte \<Rightarrow> byte" where
  "sbox b = sbox_table ! unat b"

definition inv_sbox :: "byte \<Rightarrow> byte" where
  "inv_sbox b = inv_sbox_table ! unat b"

definition xtime :: "byte \<Rightarrow> byte" where
  \<comment> \<open>multiplication by x in GF(2^8) modulo x^8 + x^4 + x^3 + x + 1\<close>
  "xtime b = (if b AND 0x80 = 0 then push_bit 1 b else push_bit 1 b XOR 0x1b)"

definition mul9 :: "byte \<Rightarrow> byte" where
  "mul9 b = xtime (xtime (xtime b)) XOR b"

definition mul11 :: "byte \<Rightarrow> byte" where
  "mul11 b = xtime (xtime (xtime b)) XOR xtime b XOR b"

definition mul13 :: "byte \<Rightarrow> byte" where
  "mul13 b = xtime (xtime (xtime b)) XOR xtime (xtime b) XOR b"

definition mul14 :: "byte \<Rightarrow> byte" where
  "mul14 b = xtime (xtime (xtime b)) XOR xtime (xtime b) XOR xtime b"

definition xor_bytes :: "byte list \<Rightarrow> byte list \<Rightarrow> byte list" where
  "xor_bytes xs ys = map (\<lambda>(x, y). x XOR y) (zip xs ys)"

fun chunks4 :: "byte list \<Rightarrow> byte list list" where
  "chunks4 (a # b # c # d # rest) = [a, b, c, d] # chunks4 rest"
| "chunks4 _ = []"

definition rcon :: "nat \<Rightarrow> byte" where
  "rcon i = [0x01, 0x02, 0x04, 0x08, 0x10, 0x20, 0x40, 0x80, 0x1b, 0x36] ! (i - 1)"

definition rot_word :: "byte list \<Rightarrow> byte list" where
  "rot_word w = drop 1 w @ take 1 w"

definition expand_word :: "nat \<Rightarrow> nat \<Rightarrow> byte list \<Rightarrow> byte list \<Rightarrow> byte list" where
  \<comment> \<open>word \<open>i\<close> of the key schedule from word \<open>i - nk\<close> (\<open>old\<close>) and word \<open>i - 1\<close> (\<open>prev\<close>)\<close>
  "expand_word nk i old prev =
     xor_bytes old
       (if i mod nk = 0 then xor_bytes (map sbox (rot_word prev)) [rcon (i div nk), 0, 0, 0]
        else if nk > 6 \<and> i mod nk = 4 then map sbox prev
        else prev)"

fun expand_loop :: "nat \<Rightarrow> nat \<Rightarrow> nat \<Rightarrow> byte list list \<Rightarrow> byte list list \<Rightarrow> byte list list" where
  \<comment> \<open>\<open>win\<close> holds the last \<open>nk\<close> words, oldest first; \<open>acc\<close> all words so far, newest first\<close>
  "expand_loop nk i 0 win acc = rev acc"
| "expand_loop nk i (Suc n) win acc =
     expand_loop nk (Suc i) n
       (tl win @ [expand_word nk i (hd win) (last win)])
       (expand_word nk i (hd win) (last win) # acc)"

definition key_expansion :: "byte list \<Rightarrow> byte list list" where
  \<comment> \<open>\<open>4 * (Nr + 1)\<close> words with \<open>Nr = Nk + 6\<close>\<close>
  "key_expansion key =
     expand_loop (length key div 4) (length key div 4) (3 * (length key div 4) + 28)
       (chunks4 key) (rev (chunks4 key))"

definition round_key :: "byte list list \<Rightarrow> nat \<Rightarrow> byte list" where
  "round_key w r = concat (take 4 (drop (4 * r) w))"

definition inv_shift_rows :: "byte list \<Rightarrow> byte list" where
  \<comment> \<open>the state is held column by column, as the input bytes are\<close>
  "inv_shift_rows s = map (\<lambda>i. s ! i) [0, 13, 10, 7, 4, 1, 14, 11, 8, 5, 2, 15, 12, 9, 6, 3]"

fun inv_mix_columns :: "byte list \<Rightarrow> byte list" where
  "inv_mix_columns (a0 # a1 # a2 # a3 # rest) =
      (mul14 a0 XOR mul11 a1 XOR mul13 a2 XOR mul9 a3) #
      (mul9 a0 XOR mul14 a1 XOR mul11 a2 XOR mul13 a3) #
      (mul13 a0 XOR mul9 a1 XOR mul14 a2 XOR mul11 a3) #
      (mul11 a0 XOR mul13 a1 XOR mul9 a2 XOR mul14 a3) # inv_mix_columns rest"
| "inv_mix_columns _ = []"

fun inv_rounds :: "byte list list \<Rightarrow> nat \<Rightarrow> byte list \<Rightarrow> byte list" where
  "inv_rounds w 0 s = xor_bytes (map inv_sbox (inv_shift_rows s)) (round_key w 0)"
| "inv_rounds w (Suc r) s =
     inv_rounds w r
       (inv_mix_columns (xor_bytes (map inv_sbox (inv_shift_rows s)) (round_key w (Suc r))))"

definition inv_cipher :: "byte list list \<Rightarrow> nat \<Rightarrow> byte list \<Rightarrow> byte list" where
  "inv_cipher w nr blk = inv_rounds w (nr - 1) (xor_bytes blk (round_key w nr))"

definition aes_decrypt_block :: "byte list \<Rightarrow> byte list \<Rightarrow> byte list" where
  "aes_decrypt_block key src =
     inv_cipher (key_expansion key) (length key div 4 + 6) (take 16 src)"

section \<open>Byte slices, errors and run-time panics\<close>

text \<open>
  The error kinds of the engine, one per error value the source returns, and \<open>Panic\<close>
  for a Go run-time panic (an index or slice bound out of range, a call on the nil
  cipher that \<^verbatim>\<open>aes.NewCipher\<close> returns for a key of a wrong size):
  \<^item> \<open>RtpVersion\<close>: "Unexpected RTP version"; \<open>RtpPayloadLength\<close>: "Unexpected RTP payload length";
  \<^item> \<open>TsSync\<close>: "Expected sync byte but got";
  \<^item> \<open>PatPointer\<close>, \<open>PmtPointer\<close>: "Pointer fields are not supported yet";
  \<^item> \<open>PatTable\<close>, \<open>PmtTable\<close>: "Unexpected PAT (PMT) table ID";
  \<^item> \<open>EcmPidNotFound\<close>: "Cannot find ECM PID"; \<open>EcmMagic\<close>: "Error decrypting ECM".
\<close>

datatype error =
    RtpVersion | RtpPayloadLength | TsSync | PatPointer | PatTable | PmtPointer | PmtTable
  | EcmPidNotFound | EcmMagic | Panic

text \<open>
  A Go slice is a window on a backing array: \<open>elems\<close> are its \<^verbatim>\<open>len\<close> bytes and
  \<open>spare\<close> the bytes of the array after them, up to \<^verbatim>\<open>cap\<close>. Indexing checks the
  length; a slice expression \<^verbatim>\<open>s[lo:hi]\<close> checks \<open>hi\<close> against the capacity only, so it
  can reach into \<open>spare\<close>; \<^verbatim>\<open>s[lo:]\<close> stands for \<^verbatim>\<open>s[lo:len(s)]\<close>.
\<close>

record slice =
  elems :: "byte list"
  spare :: "byte list"

definition slen :: "slice \<Rightarrow> nat" where
  "slen s = length (elems s)"

definition scap :: "slice \<Rightarrow> nat" where
  "scap s = length (elems s) + length (spare s)"

definition backing :: "slice \<Rightarrow> byte list" where
  "backing s = elems s @ spare s"

definition at :: "slice \<Rightarrow> nat \<Rightarrow> error + byte" where
  \<comment> \<open>\<^verbatim>\<open>s[i]\<close>\<close>
  "at s i = (if i < slen s then Inr (elems s ! i) else Inl Panic)"

definition slice_lh :: "slice \<Rightarrow> nat \<Rightarrow> nat \<Rightarrow> error + slice" where
  \<comment> \<open>\<^verbatim>\<open>s[lo:hi]\<close>\<close>
  "slice_lh s lo hi =
     (if lo \<le> hi \<and> hi \<le> scap s
      then Inr \<lparr>elems = take (hi - lo) (drop lo (backing s)), spare = drop hi (backing s)\<rparr>
      else Inl Panic)"

definition slice_from :: "slice \<Rightarrow> nat \<Rightarrow> error + slice" where
  \<comment> \<open>\<^verbatim>\<open>s[lo:]\<close>\<close>
  "slice_from s lo =
     (if lo \<le> slen s then Inr \<lparr>elems = drop lo (elems s), spare = spare s\<rparr> else Inl Panic)"

definition slice_to :: "slice \<Rightarrow> nat \<Rightarrow> error + slice" where
  \<comment> \<open>\<^verbatim>\<open>s[:hi]\<close>\<close>
  "slice_to s hi =
     (if hi \<le> scap s
      then Inr \<lparr>elems = take hi (backing s), spare = drop hi (backing s)\<rparr>
      else Inl Panic)"

definition Uint16 :: "slice \<Rightarrow> error + 16 word" where
  \<comment> \<open>\<^verbatim>\<open>binary.BigEndian.Uint16(b)\<close>: \<^verbatim>\<open>uint16(b[1]) | uint16(b[0])<<8\<close>, after a bounds check of \<^verbatim>\<open>b[1]\<close>\<close>
  "Uint16 b =
     (if slen b < 2 then Inl Panic
      else Inr (ucast (elems b ! 1) OR push_bit 8 (ucast (elems b ! 0))))"

definition fromHexChar :: "char \<Rightarrow> byte option" where
  "fromHexChar c =
     (let n = (of_char c :: nat) in
      if 48 \<le> n \<and> n \<le> 57 then Some (of_nat (n - 48))
      else if 97 \<le> n \<and> n \<le> 102 then Some (of_nat (n - 87))
      else if 65 \<le> n \<and> n \<le> 70 then Some (of_nat (n - 55))
      else None)"

fun DecodeString :: "string \<Rightarrow> byte list" where
  \<comment> \<open>\<^verbatim>\<open>hex.DecodeString\<close> with its error dropped, as the source drops it: the bytes
      decoded before the first malformed pair\<close>
  "DecodeString (p # q # rest) =
     (case fromHexChar p of None \<Rightarrow> []
      | Some a \<Rightarrow> (case fromHexChar q of None \<Rightarrow> []
         | Some b \<Rightarrow> (push_bit 4 a OR b) # DecodeString rest))"
| "DecodeString _ = []"

definition NewCipher :: "byte list \<Rightarrow> byte list option" where
  \<comment> \<open>\<^verbatim>\<open>aes.NewCipher\<close> with its error dropped: the nil cipher (\<open>None\<close>) unless the key has
      16, 24 or 32 bytes; a cipher is represented by its key\<close>
  "NewCipher key =
     (if length key = 16 \<or> length key = 24 \<or> length key = 32 then Some key else None)"

definition Decrypt :: "byte list option \<Rightarrow> byte list \<Rightarrow> error + byte list" where
  \<comment> \<open>\<^verbatim>\<open>cipher.Decrypt(dst, src)\<close>: the 16 bytes written to the front of \<^verbatim>\<open>dst\<close>; it panics
      on the nil cipher and on a source shorter than a block\<close>
  "Decrypt c src =
     (case c of None \<Rightarrow> Inl Panic
      | Some key \<Rightarrow> if length src < 16 then Inl Panic else Inr (aes_decrypt_block key src))"

section \<open>The channel\<close>

text \<open>
  The fields of \<^verbatim>\<open>Channel\<close> but its synchronisation primitives (\<open>mu\<close>, \<open>c\<close>, \<open>done\<close>).
  A working key is \<open>None\<close> for the nil slice. The ring of \<^verbatim>\<open>container/ring\<close> is the list
  of its slots' values (\<open>None\<close> for nil) and \<open>buf\<close> the position of the element
  \<^verbatim>\<open>ch.buf\<close> points to; the list is empty when no ring was allocated.
\<close>

record channel =
  lastRTPSeq :: "16 word"
  firstPkt :: bool
  pmtPid :: "16 word"
  pmtPidFound :: bool
  ecmPid :: "16 word"
  ecmPidFound :: bool
  masterKey :: string
  aesKey1 :: "byte list option"
  aesKey2 :: "byte list option"
  ring :: "byte list option list"
  buf :: nat
  ioerr :: bool
  numClients :: int
  http :: bool

definition RingSize :: nat where
  "RingSize = 64"

definition newChannel :: "string \<Rightarrow> bool \<Rightarrow> channel" where
  "newChannel mk h =
     \<lparr>lastRTPSeq = 0, firstPkt = True, pmtPid = 0, pmtPidFound = False, ecmPid = 0,
      ecmPidFound = False, masterKey = mk, aesKey1 = None, aesKey2 = None,
      ring = (if h then replicate RingSize None else []), buf = 0, ioerr = False,
      numClients = 1, http = h\<rparr>"

subsection \<open>RTP framing\<close>

definition parseRTP :: "channel \<Rightarrow> slice \<Rightarrow> (error + int) \<times> channel" where
  \<comment> \<open>the notice logged on a sequence discontinuity is not part of the result\<close>
  "parseRTP ch pkt =
     (case at pkt 0 of Inl e \<Rightarrow> (Inl e, ch) | Inr b0 \<Rightarrow>
      if drop_bit 6 b0 \<noteq> 2 then (Inl RtpVersion, ch)
      else
        (case slice_lh pkt 2 4 of Inl e \<Rightarrow> (Inl e, ch) | Inr s \<Rightarrow>
         case Uint16 s of Inl e \<Rightarrow> (Inl e, ch) | Inr seqno \<Rightarrow>
         let ch1 = (if firstPkt ch then ch\<lparr>lastRTPSeq := seqno - 1, firstPkt := False\<rparr> else ch);
             ch2 = ch1\<lparr>lastRTPSeq := seqno\<rparr>
         in if drop_bit 4 b0 AND 1 > 0
            then (case slice_lh pkt 14 16 of Inl e \<Rightarrow> (Inl e, ch2) | Inr x \<Rightarrow>
                  case Uint16 x of Inl e \<Rightarrow> (Inl e, ch2)
                  | Inr n \<Rightarrow> (Inr (12 + (4 + uint (n * 4))), ch2))
            else (Inr 12, ch2)))"

subsection \<open>ECM processing\<close>

fun ecm_blocks :: "byte list option \<Rightarrow> slice \<Rightarrow> nat list \<Rightarrow> byte list \<Rightarrow> error + byte list" where
  \<comment> \<open>the loop \<^verbatim>\<open>for i := 0; i < 4; i++ { cipher.Decrypt(ecm[i*16:], pkt[29+i*16:]) }\<close>
      over the values of \<open>i\<close> still to come\<close>
  "ecm_blocks c pkt [] ecm = Inr ecm"
| "ecm_blocks c pkt (i # rest) ecm =
     (case slice_from pkt (29 + i * 16) of Inl e \<Rightarrow> Inl e | Inr src \<Rightarrow>
      case Decrypt c (elems src) of Inl e \<Rightarrow> Inl e | Inr blk \<Rightarrow>
      ecm_blocks c pkt rest (take (i * 16) ecm @ blk @ drop (i * 16 + 16) ecm))"

definition processECM :: "channel \<Rightarrow> slice \<Rightarrow> (error + unit) \<times> channel" where
  "processECM ch pkt =
     (let key = DecodeString (masterKey ch);
          cipher = NewCipher key
      in case ecm_blocks cipher pkt [0, 1, 2, 3] (replicate 64 0) of Inl e \<Rightarrow> (Inl e, ch)
         | Inr ecm \<Rightarrow>
           if ecm ! 0 \<noteq> 0x43 \<or> ecm ! 1 \<noteq> 0x45 \<or> ecm ! 2 \<noteq> 0x42 then (Inl EcmMagic, ch)
           else
             (case at pkt 5 of Inl e \<Rightarrow> (Inl e, ch) | Inr sel \<Rightarrow>
              if sel = 0x81
              then (Inr (), ch\<lparr>aesKey1 := Some (take 16 (drop 9 ecm)),
                               aesKey2 := Some (take 16 (drop 25 ecm))\<rparr>)
              else (Inr (), ch\<lparr>aesKey2 := Some (take 16 (drop 9 ecm)),
                               aesKey1 := Some (take 16 (drop 25 ecm))\<rparr>)))"

subsection \<open>Descrambling\<close>

function descramble :: "byte list option \<Rightarrow> byte list \<Rightarrow> error + byte list" where
  \<comment> \<open>the loop \<^verbatim>\<open>for len(pkt) > 16 { cipher.Decrypt(pkt, pkt); pkt = pkt[16:] }\<close>:
      the bytes of \<^verbatim>\<open>pkt\<close> once it has run\<close>
  "descramble c body =
     (if length body > 16
      then (case Decrypt c body of Inl e \<Rightarrow> Inl e | Inr blk \<Rightarrow>
            case descramble c (drop 16 body) of Inl e \<Rightarrow> Inl e | Inr rest \<Rightarrow> Inr (blk @ rest))
      else Inr body)"
  by pat_completeness auto
termination
  by (relation "measure (\<lambda>(c, body). length body)") auto

definition select_key :: "channel \<Rightarrow> byte \<Rightarrow> byte list option" where
  \<comment> \<open>\<^verbatim>\<open>if scramble == 2 { aesKey = ch.aesKey2 } else if scramble == 3 { aesKey = ch.aesKey1 }\<close>\<close>
  "select_key ch scramble =
     (if scramble = 2 then aesKey2 ch else if scramble = 3 then aesKey1 ch else None)"

definition decryptPacket :: "channel \<Rightarrow> slice \<Rightarrow> error + slice" where
  \<comment> \<open>the packet after the call: it is decrypted in place\<close>
  "decryptPacket ch pkt =
     (if aesKey1 ch = None \<or> aesKey2 ch = None then Inr pkt
      else
        (case at pkt 3 of Inl e \<Rightarrow> Inl e | Inr b3 \<Rightarrow>
         let scramble = drop_bit 6 b3 AND 3 in
         if scramble < 2 then Inr pkt
         else
           (let aesKey = select_key ch scramble;
                cipher = NewCipher (case aesKey of None \<Rightarrow> [] | Some k \<Rightarrow> k)
            in case slice_from pkt 4 of Inl e \<Rightarrow> Inl e | Inr body \<Rightarrow>
               case descramble cipher (elems body) of Inl e \<Rightarrow> Inl e
               | Inr plain \<Rightarrow> Inr (pkt\<lparr>elems := take 4 (elems pkt) @ plain\<rparr>))))"

subsection \<open>The ring\<close>

definition addToBuf :: "channel \<Rightarrow> byte list \<Rightarrow> error + channel" where
  \<comment> \<open>a channel without a ring has the nil pointer for \<^verbatim>\<open>ch.buf\<close>\<close>
  "addToBuf ch val =
     (if ring ch = [] then Inl Panic
      else Inr (ch\<lparr>ring := (ring ch)[buf ch := Some val],
                    buf := (buf ch + 1) mod length (ring ch)\<rparr>))"

definition currentPtr :: "channel \<Rightarrow> nat" where
  "currentPtr ch = buf ch"

datatype read = Wait | Got nat "byte list option"

definition nextPtr :: "channel \<Rightarrow> nat \<Rightarrow> read" where
  \<comment> \<open>\<open>Wait\<close>: the caller blocks on the condition variable and tries again when woken\<close>
  "nextPtr ch ptr =
     (if ptr = buf ch \<and> \<not> ioerr ch then Wait
      else if \<not> ioerr ch then Got ((ptr + 1) mod length (ring ch)) (ring ch ! ptr)
      else Got ptr None)"

definition closeBuf :: "channel \<Rightarrow> channel" where
  "closeBuf ch = ch\<lparr>ioerr := True\<rparr>"

subsection \<open>PSI tables\<close>

definition ca_descriptor :: "slice \<Rightarrow> error + 16 word option" where
  \<comment> \<open>the body of \<^verbatim>\<open>if tag == 0x09\<close> in \<^verbatim>\<open>parseEcmPid\<close>: the ECM PID when the CA system is 0x5601\<close>
  "ca_descriptor desc =
     (case slice_lh desc 2 4 of Inl e \<Rightarrow> Inl e | Inr s \<Rightarrow>
      case Uint16 s of Inl e \<Rightarrow> Inl e | Inr caid \<Rightarrow>
      if caid = 0x5601
      then (case slice_lh desc 4 6 of Inl e \<Rightarrow> Inl e | Inr t \<Rightarrow>
            case Uint16 t of Inl e \<Rightarrow> Inl e | Inr pid \<Rightarrow> Inr (Some pid))
      else Inr None)"

partial_function (option) parseEcmPid :: "channel \<Rightarrow> slice \<Rightarrow> ((error + unit) \<times> channel) option" where
  \<comment> \<open>\<open>None\<close>: the loop does not end; \<^verbatim>\<open>2+length\<close> is computed in a byte\<close>
  "parseEcmPid ch desc =
     (if slen desc > 0
      then (case at desc 0 of Inl e \<Rightarrow> Some (Inl e, ch) | Inr tag \<Rightarrow>
            case at desc 1 of Inl e \<Rightarrow> Some (Inl e, ch) | Inr len \<Rightarrow>
            case (if tag = 0x09 then ca_descriptor desc else Inr None) of
              Inl e \<Rightarrow> Some (Inl e, ch)
            | Inr (Some pid) \<Rightarrow> Some (Inr (), ch\<lparr>ecmPid := pid, ecmPidFound := True\<rparr>)
            | Inr None \<Rightarrow>
                (case slice_from desc (unat (2 + len)) of Inl e \<Rightarrow> Some (Inl e, ch)
                 | Inr rest \<Rightarrow> parseEcmPid ch rest))
      else Some (Inl EcmPidNotFound, ch))"

definition pat_block :: "channel \<Rightarrow> slice \<Rightarrow> 16 word \<Rightarrow> (error + unit) \<times> channel" where
  \<comment> \<open>\<^verbatim>\<open>if !ch.pmtPidFound && pid == 0 { ... }\<close>\<close>
  "pat_block ch pkt pid =
     (if \<not> pmtPidFound ch \<and> pid = 0
      then (case at pkt 4 of Inl e \<Rightarrow> (Inl e, ch) | Inr b4 \<Rightarrow>
            if b4 \<noteq> 0 then (Inl PatPointer, ch)
            else (case at pkt 5 of Inl e \<Rightarrow> (Inl e, ch) | Inr b5 \<Rightarrow>
                  if b5 \<noteq> 0 then (Inl PatTable, ch)
                  else (case slice_lh pkt 15 17 of Inl e \<Rightarrow> (Inl e, ch) | Inr s \<Rightarrow>
                        case Uint16 s of Inl e \<Rightarrow> (Inl e, ch)
                        | Inr w \<Rightarrow> (Inr (), ch\<lparr>pmtPid := w AND 0x1fff, pmtPidFound := True\<rparr>))))
      else (Inr (), ch))"

definition pmt_block :: "channel \<Rightarrow> slice \<Rightarrow> 16 word \<Rightarrow> ((error + unit) \<times> channel) option" where
  \<comment> \<open>\<^verbatim>\<open>if !ch.ecmPidFound && ch.pmtPidFound && pid == ch.pmtPid { ... }\<close>\<close>
  "pmt_block ch pkt pid =
     (if \<not> ecmPidFound ch \<and> pmtPidFound ch \<and> pid = pmtPid ch
      then (case at pkt 4 of Inl e \<Rightarrow> Some (Inl e, ch) | Inr b4 \<Rightarrow>
            if b4 \<noteq> 0 then Some (Inl PmtPointer, ch)
            else (case at pkt 5 of Inl e \<Rightarrow> Some (Inl e, ch) | Inr b5 \<Rightarrow>
                  if b5 \<noteq> 2 then Some (Inl PmtTable, ch)
                  else (case slice_lh pkt 15 17 of Inl e \<Rightarrow> Some (Inl e, ch) | Inr s \<Rightarrow>
                        case Uint16 s of Inl e \<Rightarrow> Some (Inl e, ch) | Inr w \<Rightarrow>
                        let piLength = w AND 0x03ff in
                        case slice_lh pkt 17 (unat (17 + piLength)) of Inl e \<Rightarrow> Some (Inl e, ch)
                        | Inr desc \<Rightarrow> parseEcmPid ch desc)))
      else Some (Inr (), ch))"

definition ecm_block :: "channel \<Rightarrow> slice \<Rightarrow> 16 word \<Rightarrow> (error + unit) \<times> channel" where
  \<comment> \<open>\<^verbatim>\<open>if ch.ecmPidFound && pid == ch.ecmPid { ... }\<close>\<close>
  "ecm_block ch pkt pid =
     (if ecmPidFound ch \<and> pid = ecmPid ch then processECM ch pkt else (Inr (), ch))"

definition processPacket :: "channel \<Rightarrow> slice \<Rightarrow> ((error + slice) \<times> channel) option" where
  \<comment> \<open>the packet after the call, and the channel\<close>
  "processPacket ch pkt =
     (case at pkt 0 of Inl e \<Rightarrow> Some (Inl e, ch) | Inr b0 \<Rightarrow>
      if b0 \<noteq> 0x47 then Some (Inl TsSync, ch)
      else
        (case slice_lh pkt 1 3 of Inl e \<Rightarrow> Some (Inl e, ch) | Inr s \<Rightarrow>
         case Uint16 s of Inl e \<Rightarrow> Some (Inl e, ch) | Inr w \<Rightarrow>
         let pid = w AND 0x1fff in
         case pat_block ch pkt pid of (Inl e, ch1) \<Rightarrow> Some (Inl e, ch1) | (Inr u1, ch1) \<Rightarrow>
         case pmt_block ch1 pkt pid of None \<Rightarrow> None
         | Some (Inl e, ch2) \<Rightarrow> Some (Inl e, ch2)
         | Some (Inr u2, ch2) \<Rightarrow>
         case ecm_block ch2 pkt pid of (Inl e, ch3) \<Rightarrow> Some (Inl e, ch3) | (Inr u3, ch3) \<Rightarrow>
         case decryptPacket ch3 pkt of Inl e \<Rightarrow> Some (Inl e, ch3) | Inr pkt' \<Rightarrow>
         if http ch3
         then (case addToBuf ch3 (elems pkt') of Inl e \<Rightarrow> Some (Inl e, ch3)
               | Inr ch4 \<Rightarrow> Some (Inr pkt', ch4))
         else Some (Inr pkt', ch3)))"

subsection \<open>Datagrams\<close>

function packets :: "channel \<Rightarrow> slice \<Rightarrow> byte list \<Rightarrow> ((error + byte list) \<times> channel) option" where
  \<comment> \<open>the loop of \<^verbatim>\<open>processRTP\<close>; \<open>out\<close> are the packets already processed, as they
      now stand in the datagram\<close>
  "packets ch pkt out =
     (if slen pkt > 0
      then (case slice_to pkt 188 of Inl e \<Rightarrow> Some (Inl e, ch) | Inr p \<Rightarrow>
            case processPacket ch p of None \<Rightarrow> None
            | Some (Inl e, ch') \<Rightarrow> Some (Inl e, ch')
            | Some (Inr p', ch') \<Rightarrow>
                (case slice_from pkt 188 of Inl e \<Rightarrow> Some (Inl e, ch')
                 | Inr rest \<Rightarrow> packets ch' rest (out @ elems p')))
      else Some (Inr out, ch))"
  by pat_completeness auto
termination
  by (relation "measure (\<lambda>(ch, pkt, out). slen pkt)")
     (auto simp: slice_from_def slen_def split: if_splits)

definition go_rem :: "int \<Rightarrow> int \<Rightarrow> int" where
  \<comment> \<open>Go's \<^verbatim>\<open>%\<close> on integers truncates towards zero\<close>
  "go_rem a b = sgn a * (\<bar>a\<bar> mod \<bar>b\<bar>)"

definition processRTP :: "channel \<Rightarrow> slice \<Rightarrow> int \<Rightarrow> ((error + byte list) \<times> channel) option" where
  \<comment> \<open>the bytes of the datagram after the call, and the channel\<close>
  "processRTP ch payload offset =
     (if go_rem (int (slen payload) - offset) 188 \<noteq> 0 then Some (Inl RtpPayloadLength, ch)
      else if offset < 0 then Some (Inl Panic, ch)
      else (case slice_from payload (nat offset) of Inl e \<Rightarrow> Some (Inl e, ch) | Inr pkt \<Rightarrow>
            case packets ch pkt [] of None \<Rightarrow> None
            | Some (Inl e, ch') \<Rightarrow> Some (Inl e, ch')
            | Some (Inr out, ch') \<Rightarrow> Some (Inr (take (nat offset) (elems payload) @ out), ch')))"

section \<open>Notions of the specification\<close>

function ecb_decrypt :: "byte list \<Rightarrow> byte list \<Rightarrow> byte list" where
  \<comment> \<open>AES-ECB: the ciphertext decrypted in consecutive 16-byte blocks\<close>
  "ecb_decrypt key ct =
     (if length ct < 16 then []
      else aes_decrypt_block key (take 16 ct) @ ecb_decrypt key (drop 16 ct))"
  by pat_completeness auto
termination
  by (relation "measure (\<lambda>(key, ct). length ct)") auto

definition u16be :: "byte \<Rightarrow> byte \<Rightarrow> 16 word" where
  "u16be hi lo = ucast lo OR push_bit 8 (ucast hi)"

definition ts_pid :: "slice \<Rightarrow> 16 word" where
  \<comment> \<open>the PID of a TS packet: \<open>u16be(bytes[1:3]) & 0x1FFF\<close>\<close>
  "ts_pid pkt = u16be (elems pkt ! 1) (elems pkt ! 2) AND 0x1fff"

definition scramble_bits :: "slice \<Rightarrow> byte" where
  \<comment> \<open>the scrambling control of a TS packet: \<open>(byte[3] >> 6) & 3\<close>\<close>
  "scramble_bits pkt = drop_bit 6 (elems pkt ! 3) AND 3"

definition pi_length :: "slice \<Rightarrow> nat" where
  \<comment> \<open>the program-info length of a PMT packet: \<open>u16be(bytes[15:17]) & 0x03FF\<close>\<close>
  "pi_length pkt = unat (u16be (elems pkt ! 15) (elems pkt ! 16) AND 0x03ff)"

definition program_info :: "slice \<Rightarrow> byte list" where
  \<comment> \<open>\<open>bytes[17 .. 17 + pi_length]\<close>\<close>
  "program_info pkt = take (pi_length pkt) (drop 17 (elems pkt))"

fun ca_scan :: "byte list \<Rightarrow> 16 word option" where
  \<comment> \<open>the scan of the descriptors as (tag, length, value): the ECM PID \<open>u16be(value[2:4])\<close>
      of the first descriptor with tag 0x09 and \<open>u16be(value[0:2]) = 0x5601\<close>\<close>
  "ca_scan (tag # len # rest) =
     (if tag = 0x09 \<and> u16be (rest ! 0) (rest ! 1) = 0x5601 then Some (u16be (rest ! 2) (rest ! 3))
      else ca_scan (drop (unat len) rest))"
| "ca_scan _ = None"

fun descriptors_ok :: "byte list \<Rightarrow> bool" where
  \<comment> \<open>the bytes are a sequence of whole descriptors, a CA descriptor holding at least the
      CA system id and the PID\<close>
  "descriptors_ok (tag # len # rest) =
     (unat len \<le> length rest \<and> (if tag = 0x09 then 4 \<le> unat len else True) \<and>
      descriptors_ok (drop (unat len) rest))"
| "descriptors_ok [b] = False"
| "descriptors_ok [] = True"

definition keys_paired :: "channel \<Rightarrow> bool" where
  "keys_paired ch =
     (case (aesKey1 ch, aesKey2 ch) of
        (None, None) \<Rightarrow> True
      | (Some k1, Some k2) \<Rightarrow> length k1 = 16 \<and> length k2 = 16
      | _ \<Rightarrow> False)"

inductive step :: "channel \<Rightarrow> channel \<Rightarrow> bool" where
  \<comment> \<open>one call of a method of the channel that returns, with any arguments, or one update
      of the client count by a handler\<close>
  rtp: "parseRTP ch d = (r, ch') \<Longrightarrow> step ch ch'"
| datagram: "processRTP ch d offset = Some (r, ch') \<Longrightarrow> step ch ch'"
| packet: "processPacket ch pkt = Some (r, ch') \<Longrightarrow> step ch ch'"
| pmt: "parseEcmPid ch desc = Some (r, ch') \<Longrightarrow> step ch ch'"
| ecm: "processECM ch pkt = (r, ch') \<Longrightarrow> step ch ch'"
| publish: "addToBuf ch val = Inr ch' \<Longrightarrow> step ch ch'"
| close: "step ch (closeBuf ch)"
| clients: "step ch (ch\<lparr>numClients := n\<rparr>)"

definition ecm_plaintext :: "channel \<Rightarrow> slice \<Rightarrow> byte list" where
  \<comment> \<open>the 64 bytes from offset 29 of the packet, AES-ECB decrypted with the master key\<close>
  "ecm_plaintext ch pkt =
     ecb_decrypt (DecodeString (masterKey ch)) (take 64 (drop 29 (elems pkt)))"

section \<open>Example inputs\<close>

text \<open>The example vectors of FIPS-197, appendix C.\<close>

definition fips_plain :: "byte list" where
  "fips_plain = [0x00, 0x11, 0x22, 0x33, 0x44, 0x55, 0x66, 0x77, 0x88, 0x99, 0xaa, 0xbb, 0xcc, 0xdd, 0xee, 0xff]"

definition fips_key128 :: "byte list" where
  "fips_key128 = [0x00, 0x01, 0x02, 0x03, 0x04, 0x05, 0x06, 0x07, 0x08, 0x09, 0x0a, 0x0b, 0x0c, 0x0d, 0x0e, 0x0f]"

definition fips_cipher128 :: "byte list" where
  "fips_cipher128 = [0x69, 0xc4, 0xe0, 0xd8, 0x6a, 0x7b, 0x04, 0x30, 0xd8, 0xcd, 0xb7, 0x80, 0x70, 0xb4, 0xc5, 0x5a]"

definition fips_key192 :: "byte list" where
  "fips_key192 = [0x00, 0x01, 0x02, 0x03, 0x04, 0x05, 0x06, 0x07, 0x08, 0x09, 0x0a, 0x0b, 0x0c, 0x0d, 0x0e, 0x0f,
      0x10, 0x11, 0x12, 0x13, 0x14, 0x15, 0x16, 0x17]"

definition fips_cipher192 :: "byte list" where
  "fips_cipher192 = [0xdd, 0xa9, 0x7c, 0xa4, 0x86, 0x4c, 0xdf, 0xe0, 0x6e, 0xaf, 0x70, 0xa0, 0xec, 0x0d, 0x71, 0x91]"

definition fips_key256 :: "byte list" where
  "fips_key256 = [0x00, 0x01, 0x02, 0x03, 0x04, 0x05, 0x06, 0x07, 0x08, 0x09, 0x0a, 0x0b, 0x0c, 0x0d, 0x0e, 0x0f,
      0x10, 0x11, 0x12, 0x13, 0x14, 0x15, 0x16, 0x17, 0x18, 0x19, 0x1a, 0x1b, 0x1c, 0x1d, 0x1e, 0x1f]"

definition fips_cipher256 :: "byte list" where
  "fips_cipher256 = [0x8e, 0xa2, 0xb7, 0xca, 0x51, 0x67, 0x45, 0xbf, 0xea, 0xfc, 0x49, 0x90, 0x4b, 0x49, 0x60, 0x89]"

text \<open>
  An ECM under the master key of 16 zero bytes: the plaintext starts with "CEB", holds
  the bytes \<open>a0 .. af\<close> at offsets 9 to 24 and \<open>b0 .. bf\<close> at offsets 25 to 40.
\<close>

definition zero_key_hex :: string where
  "zero_key_hex = ''00000000000000000000000000000000''"

definition zero_key :: "byte list" where
  "zero_key = [0, 0, 0, 0, 0, 0, 0, 0, 0, 0, 0, 0, 0, 0, 0, 0]"

definition key_a :: "byte list" where
  "key_a = [0xa0, 0xa1, 0xa2, 0xa3, 0xa4, 0xa5, 0xa6, 0xa7, 0xa8, 0xa9, 0xaa, 0xab, 0xac, 0xad, 0xae, 0xaf]"

definition key_b :: "byte list" where
  "key_b = [0xb0, 0xb1, 0xb2, 0xb3, 0xb4, 0xb5, 0xb6, 0xb7, 0xb8, 0xb9, 0xba, 0xbb, 0xbc, 0xbd, 0xbe, 0xbf]"

definition ecm_plain :: "byte list" where
  "ecm_plain =
     [0x43, 0x45, 0x42, 0x00, 0x00, 0x00, 0x00, 0x00, 0x00, 0xa0, 0xa1, 0xa2, 0xa3, 0xa4, 0xa5, 0xa6,
      0xa7, 0xa8, 0xa9, 0xaa, 0xab, 0xac, 0xad, 0xae, 0xaf, 0xb0, 0xb1, 0xb2, 0xb3, 0xb4, 0xb5, 0xb6,
      0xb7, 0xb8, 0xb9, 0xba, 0xbb, 0xbc, 0xbd, 0xbe, 0xbf, 0x00, 0x00, 0x00, 0x00, 0x00, 0x00, 0x00,
      0x00, 0x00, 0x00, 0x00, 0x00, 0x00, 0x00, 0x00, 0x00, 0x00, 0x00, 0x00, 0x00, 0x00, 0x00, 0x00]"

definition ecm_cipher :: "byte list" where
  "ecm_cipher =
     [0x4d, 0x49, 0xa1, 0xc5, 0x7b, 0xe2, 0x32, 0x79, 0xbf, 0x9c, 0x28, 0xd4, 0xe8, 0x03, 0xac, 0x9f,
      0xb6, 0xd8, 0x30, 0xdc, 0x4c, 0x87, 0x29, 0x63, 0xf3, 0x8d, 0x71, 0xdc, 0x0c, 0xbe, 0x29, 0xb7,
      0x36, 0x65, 0x52, 0x08, 0x64, 0x1c, 0x6d, 0xf9, 0xbc, 0x89, 0x39, 0xb7, 0x1a, 0x66, 0x8e, 0x05,
      0x66, 0xe9, 0x4b, 0xd4, 0xef, 0x8a, 0x2c, 0x3b, 0x88, 0x4c, 0xfa, 0x59, 0xca, 0x34, 0x2b, 0x2e]"

definition ecm_packet :: "byte \<Rightarrow> slice" where
  \<comment> \<open>a TS packet of PID 0x0123 with the selector byte \<open>sel\<close> and the ECM at offset 29\<close>
  "ecm_packet sel =
     \<lparr>elems = [0x47, 0x01, 0x23, 0x10, 0x00, sel] @ replicate 23 0 @ ecm_cipher @ replicate 95 0,
      spare = []\<rparr>"

definition bad_ecm_packet :: slice where
  \<comment> \<open>the same with a ciphertext of zeros, which does not decrypt to the magic\<close>
  "bad_ecm_packet = \<lparr>elems = [0x47, 0x01, 0x23, 0x10, 0x00, 0x81] @ replicate 182 0, spare = []\<rparr>"

definition keyed_channel :: channel where
  "keyed_channel = (newChannel zero_key_hex False)\<lparr>aesKey1 := Some key_a, aesKey2 := Some key_b\<rparr>"

definition ts_packet :: "byte \<Rightarrow> nat \<Rightarrow> slice" where
  \<comment> \<open>a TS packet of PID 0x0064 with the fourth byte \<open>b3\<close> and a body of \<open>n\<close> zero bytes\<close>
  "ts_packet b3 n = \<lparr>elems = [0x47, 0x00, 0x64, b3] @ replicate n 0, spare = []\<rparr>"

text \<open>The packets of scenario S3: a PAT naming PMT PID 0x0042, and the PMT with a CA
  descriptor of system 0x5601 and PID 0x0123.\<close>

definition pat_packet :: slice where
  "pat_packet =
     \<lparr>elems = [0x47, 0x40, 0x00, 0x10, 0x00, 0x00, 0xb0, 0x0d, 0x00, 0x01, 0xc1, 0x00, 0x00,
               0x00, 0x01, 0x20, 0x42] @ replicate 171 0,
      spare = []\<rparr>"

definition pmt_packet :: "byte list \<Rightarrow> byte list \<Rightarrow> slice" where
  \<comment> \<open>a PMT of PID 0x0042 with the bytes \<open>[hi, lo]\<close> at offsets 15 and 16 and \<open>info\<close> from offset 17\<close>
  "pmt_packet hl info =
     \<lparr>elems = [0x47, 0x40, 0x42, 0x10, 0x00, 0x02, 0xb0, 0x17, 0x00, 0x01, 0xc1, 0x00, 0x00,
               0xe1, 0x00] @ hl @ info @ replicate (171 - length info) 0,
      spare = []\<rparr>"

definition ca_info :: "byte list" where
  "ca_info = [0x09, 0x04, 0x56, 0x01, 0x01, 0x23]"

definition pmt_channel :: channel where
  "pmt_channel = (newChannel zero_key_hex False)\<lparr>pmtPid := 0x0042, pmtPidFound := True\<rparr>"

text \<open>Datagrams, in the 1500-byte buffer the engine reads them into.\<close>

definition rtp_datagram :: "byte \<Rightarrow> byte \<Rightarrow> byte \<Rightarrow> byte list \<Rightarrow> slice" where
  \<comment> \<open>an RTP header with first byte \<open>b0\<close>, sequence number 100 and the bytes \<open>[x, y]\<close> at
      offsets 14 and 15, followed by \<open>body\<close>\<close>
  "rtp_datagram b0 x y body =
     \<lparr>elems = [b0, 0x21, 0x00, 0x64, 0, 0, 0, 0, 0, 0, 0, 0, 0xbe, 0xde, x, y] @ body,
      spare = replicate (1484 - length body) 0\<rparr>"

subsection \<open>Evaluation of the cipher\<close>

text \<open>The tables as rewrite rules, so that a lookup is one step.\<close>

lemma sbox_rules:
  "sbox 0x00 = 0x63" "sbox 0x01 = 0x7c" "sbox 0x02 = 0x77" "sbox 0x03 = 0x7b"
  "sbox 0x04 = 0xf2" "sbox 0x05 = 0x6b" "sbox 0x06 = 0x6f" "sbox 0x07 = 0xc5"
  "sbox 0x08 = 0x30" "sbox 0x09 = 0x01" "sbox 0x0a = 0x67" "sbox 0x0b = 0x2b"
  "sbox 0x0c = 0xfe" "sbox 0x0d = 0xd7" "sbox 0x0e = 0xab" "sbox 0x0f = 0x76"
  "sbox 0x10 = 0xca" "sbox 0x11 = 0x82" "sbox 0x12 = 0xc9" "sbox 0x13 = 0x7d"
  "sbox 0x14 = 0xfa" "sbox 0x15 = 0x59" "sbox 0x16 = 0x47" "sbox 0x17 = 0xf0"
  "sbox 0x18 = 0xad" "sbox 0x19 = 0xd4" "sbox 0x1a = 0xa2" "sbox 0x1b = 0xaf"
  "sbox 0x1c = 0x9c" "sbox 0x1d = 0xa4" "sbox 0x1e = 0x72" "sbox 0x1f = 0xc0"
  "sbox 0x20 = 0xb7" "sbox 0x21 = 0xfd" "sbox 0x22 = 0x93" "sbox 0x23 = 0x26"
  "sbox 0x24 = 0x36" "sbox 0x25 = 0x3f" "sbox 0x26 = 0xf7" "sbox 0x27 = 0xcc"
  "sbox 0x28 = 0x34" "sbox 0x29 = 0xa5" "sbox 0x2a = 0xe5" "sbox 0x2b = 0xf1"
  "sbox 0x2c = 0x71" "sbox 0x2d = 0xd8" "sbox 0x2e = 0x31" "sbox 0x2f = 0x15"
  "sbox 0x30 = 0x04" "sbox 0x31 = 0xc7" "sbox 0x32 = 0x23" "sbox 0x33 = 0xc3"
  "sbox 0x34 = 0x18" "sbox 0x35 = 0x96" "sbox 0x36 = 0x05" "sbox 0x37 = 0x9a"
  "sbox 0x38 = 0x07" "sbox 0x39 = 0x12" "sbox 0x3a = 0x80" "sbox 0x3b = 0xe2"
  "sbox 0x3c = 0xeb" "sbox 0x3d = 0x27" "sbox 0x3e = 0xb2" "sbox 0x3f = 0x75"
  "sbox 0x40 = 0x09" "sbox 0x41 = 0x83" "sbox 0x42 = 0x2c" "sbox 0x43 = 0x1a"
  "sbox 0x44 = 0x1b" "sbox 0x45 = 0x6e" "sbox 0x46 = 0x5a" "sbox 0x47 = 0xa0"
  "sbox 0x48 = 0x52" "sbox 0x49 = 0x3b" "sbox 0x4a = 0xd6" "sbox 0x4b = 0xb3"
  "sbox 0x4c = 0x29" "sbox 0x4d = 0xe3" "sbox 0x4e = 0x2f" "sbox 0x4f = 0x84"
  "sbox 0x50 = 0x53" "sbox 0x51 = 0xd1" "sbox 0x52 = 0x00" "sbox 0x53 = 0xed"
  "sbox 0x54 = 0x20" "sbox 0x55 = 0xfc" "sbox 0x56 = 0xb1" "sbox 0x57 = 0x5b"
  "sbox 0x58 = 0x6a" "sbox 0x59 = 0xcb" "sbox 0x5a = 0xbe" "sbox 0x5b = 0x39"
  "sbox 0x5c = 0x4a" "sbox 0x5d = 0x4c" "sbox 0x5e = 0x58" "sbox 0x5f = 0xcf"
  "sbox 0x60 = 0xd0" "sbox 0x61 = 0xef" "sbox 0x62 = 0xaa" "sbox 0x63 = 0xfb"
  "sbox 0x64 = 0x43" "sbox 0x65 = 0x4d" "sbox 0x66 = 0x33" "sbox 0x67 = 0x85"
  "sbox 0x68 = 0x45" "sbox 0x69 = 0xf9" "sbox 0x6a = 0x02" "sbox 0x6b = 0x7f"
  "sbox 0x6c = 0x50" "sbox 0x6d = 0x3c" "sbox 0x6e = 0x9f" "sbox 0x6f = 0xa8"
  "sbox 0x70 = 0x51" "sbox 0x71 = 0xa3" "sbox 0x72 = 0x40" "sbox 0x73 = 0x8f"
  "sbox 0x74 = 0x92" "sbox 0x75 = 0x9d" "sbox 0x76 = 0x38" "sbox 0x77 = 0xf5"
  "sbox 0x78 = 0xbc" "sbox 0x79 = 0xb6" "sbox 0x7a = 0xda" "sbox 0x7b = 0x21"
  "sbox 0x7c = 0x10" "sbox 0x7d = 0xff" "sbox 0x7e = 0xf3" "sbox 0x7f = 0xd2"
  "sbox 0x80 = 0xcd" "sbox 0x81 = 0x0c" "sbox 0x82 = 0x13" "sbox 0x83 = 0xec"
  "sbox 0x84 = 0x5f" "sbox 0x85 = 0x97" "sbox 0x86 = 0x44" "sbox 0x87 = 0x17"
  "sbox 0x88 = 0xc4" "sbox 0x89 = 0xa7" "sbox 0x8a = 0x7e" "sbox 0x8b = 0x3d"
  "sbox 0x8c = 0x64" "sbox 0x8d = 0x5d" "sbox 0x8e = 0x19" "sbox 0x8f = 0x73"
  "sbox 0x90 = 0x60" "sbox 0x91 = 0x81" "sbox 0x92 = 0x4f" "sbox 0x93 = 0xdc"
  "sbox 0x94 = 0x22" "sbox 0x95 = 0x2a" "sbox 0x96 = 0x90" "sbox 0x97 = 0x88"
  "sbox 0x98 = 0x46" "sbox 0x99 = 0xee" "sbox 0x9a = 0xb8" "sbox 0x9b = 0x14"
  "sbox 0x9c = 0xde" "sbox 0x9d = 0x5e" "sbox 0x9e = 0x0b" "sbox 0x9f = 0xdb"
  "sbox 0xa0 = 0xe0" "sbox 0xa1 = 0x32" "sbox 0xa2 = 0x3a" "sbox 0xa3 = 0x0a"
  "sbox 0xa4 = 0x49" "sbox 0xa5 = 0x06" "sbox 0xa6 = 0x24" "sbox 0xa7 = 0x5c"
  "sbox 0xa8 = 0xc2" "sbox 0xa9 = 0xd3" "sbox 0xaa = 0xac" "sbox 0xab = 0x62"
  "sbox 0xac = 0x91" "sbox 0xad = 0x95" "sbox 0xae = 0xe4" "sbox 0xaf = 0x79"
  "sbox 0xb0 = 0xe7" "sbox 0xb1 = 0xc8" "sbox 0xb2 = 0x37" "sbox 0xb3 = 0x6d"
  "sbox 0xb4 = 0x8d" "sbox 0xb5 = 0xd5" "sbox 0xb6 = 0x4e" "sbox 0xb7 = 0xa9"
  "sbox 0xb8 = 0x6c" "sbox 0xb9 = 0x56" "sbox 0xba = 0xf4" "sbox 0xbb = 0xea"
  "sbox 0xbc = 0x65" "sbox 0xbd = 0x7a" "sbox 0xbe = 0xae" "sbox 0xbf = 0x08"
  "sbox 0xc0 = 0xba" "sbox 0xc1 = 0x78" "sbox 0xc2 = 0x25" "sbox 0xc3 = 0x2e"
  "sbox 0xc4 = 0x1c" "sbox 0xc5 = 0xa6" "sbox 0xc6 = 0xb4" "sbox 0xc7 = 0xc6"
  "sbox 0xc8 = 0xe8" "sbox 0xc9 = 0xdd" "sbox 0xca = 0x74" "sbox 0xcb = 0x1f"
  "sbox 0xcc = 0x4b" "sbox 0xcd = 0xbd" "sbox 0xce = 0x8b" "sbox 0xcf = 0x8a"
  "sbox 0xd0 = 0x70" "sbox 0xd1 = 0x3e" "sbox 0xd2 = 0xb5" "sbox 0xd3 = 0x66"
  "sbox 0xd4 = 0x48" "sbox 0xd5 = 0x03" "sbox 0xd6 = 0xf6" "sbox 0xd7 = 0x0e"
  "sbox 0xd8 = 0x61" "sbox 0xd9 = 0x35" "sbox 0xda = 0x57" "sbox 0xdb = 0xb9"
  "sbox 0xdc = 0x86" "sbox 0xdd = 0xc1" "sbox 0xde = 0x1d" "sbox 0xdf = 0x9e"
  "sbox 0xe0 = 0xe1" "sbox 0xe1 = 0xf8" "sbox 0xe2 = 0x98" "sbox 0xe3 = 0x11"
  "sbox 0xe4 = 0x69" "sbox 0xe5 = 0xd9" "sbox 0xe6 = 0x8e" "sbox 0xe7 = 0x94"
  "sbox 0xe8 = 0x9b" "sbox 0xe9 = 0x1e" "sbox 0xea = 0x87" "sbox 0xeb = 0xe9"
  "sbox 0xec = 0xce" "sbox 0xed = 0x55" "sbox 0xee = 0x28" "sbox 0xef = 0xdf"
  "sbox 0xf0 = 0x8c" "sbox 0xf1 = 0xa1" "sbox 0xf2 = 0x89" "sbox 0xf3 = 0x0d"
  "sbox 0xf4 = 0xbf" "sbox 0xf5 = 0xe6" "sbox 0xf6 = 0x42" "sbox 0xf7 = 0x68"
  "sbox 0xf8 = 0x41" "sbox 0xf9 = 0x99" "sbox 0xfa = 0x2d" "sbox 0xfb = 0x0f"
  "sbox 0xfc = 0xb0" "sbox 0xfd = 0x54" "sbox 0xfe = 0xbb" "sbox 0xff = 0x16"
  by (simp_all add: sbox_def sbox_table_def)

lemma inv_sbox_rules:
  "inv_sbox 0x00 = 0x52" "inv_sbox 0x01 = 0x09" "inv_sbox 0x02 = 0x6a" "inv_sbox 0x03 = 0xd5"
  "inv_sbox 0x04 = 0x30" "inv_sbox 0x05 = 0x36" "inv_sbox 0x06 = 0xa5" "inv_sbox 0x07 = 0x38"
  "inv_sbox 0x08 = 0xbf" "inv_sbox 0x09 = 0x40" "inv_sbox 0x0a = 0xa3" "inv_sbox 0x0b = 0x9e"
  "inv_sbox 0x0c = 0x81" "inv_sbox 0x0d = 0xf3" "inv_sbox 0x0e = 0xd7" "inv_sbox 0x0f = 0xfb"
  "inv_sbox 0x10 = 0x7c" "inv_sbox 0x11 = 0xe3" "inv_sbox 0x12 = 0x39" "inv_sbox 0x13 = 0x82"
  "inv_sbox 0x14 = 0x9b" "inv_sbox 0x15 = 0x2f" "inv_sbox 0x16 = 0xff" "inv_sbox 0x17 = 0x87"
  "inv_sbox 0x18 = 0x34" "inv_sbox 0x19 = 0x8e" "inv_sbox 0x1a = 0x43" "inv_sbox 0x1b = 0x44"
  "inv_sbox 0x1c = 0xc4" "inv_sbox 0x1d = 0xde" "inv_sbox 0x1e = 0xe9" "inv_sbox 0x1f = 0xcb"
  "inv_sbox 0x20 = 0x54" "inv_sbox 0x21 = 0x7b" "inv_sbox 0x22 = 0x94" "inv_sbox 0x23 = 0x32"
  "inv_sbox 0x24 = 0xa6" "inv_sbox 0x25 = 0xc2" "inv_sbox 0x26 = 0x23" "inv_sbox 0x27 = 0x3d"
  "inv_sbox 0x28 = 0xee" "inv_sbox 0x29 = 0x4c" "inv_sbox 0x2a = 0x95" "inv_sbox 0x2b = 0x0b"
  "inv_sbox 0x2c = 0x42" "inv_sbox 0x2d = 0xfa" "inv_sbox 0x2e = 0xc3" "inv_sbox 0x2f = 0x4e"
  "inv_sbox 0x30 = 0x08" "inv_sbox 0x31 = 0x2e" "inv_sbox 0x32 = 0xa1" "inv_sbox 0x33 = 0x66"
  "inv_sbox 0x34 = 0x28" "inv_sbox 0x35 = 0xd9" "inv_sbox 0x36 = 0x24" "inv_sbox 0x37 = 0xb2"
  "inv_sbox 0x38 = 0x76" "inv_sbox 0x39 = 0x5b" "inv_sbox 0x3a = 0xa2" "inv_sbox 0x3b = 0x49"
  "inv_sbox 0x3c = 0x6d" "inv_sbox 0x3d = 0x8b" "inv_sbox 0x3e = 0xd1" "inv_sbox 0x3f = 0x25"
  "inv_sbox 0x40 = 0x72" "inv_sbox 0x41 = 0xf8" "inv_sbox 0x42 = 0xf6" "inv_sbox 0x43 = 0x64"
  "inv_sbox 0x44 = 0x86" "inv_sbox 0x45 = 0x68" "inv_sbox 0x46 = 0x98" "inv_sbox 0x47 = 0x16"
  "inv_sbox 0x48 = 0xd4" "inv_sbox 0x49 = 0xa4" "inv_sbox 0x4a = 0x5c" "inv_sbox 0x4b = 0xcc"
  "inv_sbox 0x4c = 0x5d" "inv_sbox 0x4d = 0x65" "inv_sbox 0x4e = 0xb6" "inv_sbox 0x4f = 0x92"
  "inv_sbox 0x50 = 0x6c" "inv_sbox 0x51 = 0x70" "inv_sbox 0x52 = 0x48" "inv_sbox 0x53 = 0x50"
  "inv_sbox 0x54 = 0xfd" "inv_sbox 0x55 = 0xed" "inv_sbox 0x56 = 0xb9" "inv_sbox 0x57 = 0xda"
  "inv_sbox 0x58 = 0x5e" "inv_sbox 0x59 = 0x15" "inv_sbox 0x5a = 0x46" "inv_sbox 0x5b = 0x57"
  "inv_sbox 0x5c = 0xa7" "inv_sbox 0x5d = 0x8d" "inv_sbox 0x5e = 0x9d" "inv_sbox 0x5f = 0x84"
  "inv_sbox 0x60 = 0x90" "inv_sbox 0x61 = 0xd8" "inv_sbox 0x62 = 0xab" "inv_sbox 0x63 = 0x00"
  "inv_sbox 0x64 = 0x8c" "inv_sbox 0x65 = 0xbc" "inv_sbox 0x66 = 0xd3" "inv_sbox 0x67 = 0x0a"
  "inv_sbox 0x68 = 0xf7" "inv_sbox 0x69 = 0xe4" "inv_sbox 0x6a = 0x58" "inv_sbox 0x6b = 0x05"
  "inv_sbox 0x6c = 0xb8" "inv_sbox 0x6d = 0xb3" "inv_sbox 0x6e = 0x45" "inv_sbox 0x6f = 0x06"
  "inv_sbox 0x70 = 0xd0" "inv_sbox 0x71 = 0x2c" "inv_sbox 0x72 = 0x1e" "inv_sbox 0x73 = 0x8f"
  "inv_sbox 0x74 = 0xca" "inv_sbox 0x75 = 0x3f" "inv_sbox 0x76 = 0x0f" "inv_sbox 0x77 = 0x02"
  "inv_sbox 0x78 = 0xc1" "inv_sbox 0x79 = 0xaf" "inv_sbox 0x7a = 0xbd" "inv_sbox 0x7b = 0x03"
  "inv_sbox 0x7c = 0x01" "inv_sbox 0x7d = 0x13" "inv_sbox 0x7e = 0x8a" "inv_sbox 0x7f = 0x6b"
  "inv_sbox 0x80 = 0x3a" "inv_sbox 0x81 = 0x91" "inv_sbox 0x82 = 0x11" "inv_sbox 0x83 = 0x41"
  "inv_sbox 0x84 = 0x4f" "inv_sbox 0x85 = 0x67" "inv_sbox 0x86 = 0xdc" "inv_sbox 0x87 = 0xea"
  "inv_sbox 0x88 = 0x97" "inv_sbox 0x89 = 0xf2" "inv_sbox 0x8a = 0xcf" "inv_sbox 0x8b = 0xce"
  "inv_sbox 0x8c = 0xf0" "inv_sbox 0x8d = 0xb4" "inv_sbox 0x8e = 0xe6" "inv_sbox 0x8f = 0x73"
  "inv_sbox 0x90 = 0x96" "inv_sbox 0x91 = 0xac" "inv_sbox 0x92 = 0x74" "inv_sbox 0x93 = 0x22"
  "inv_sbox 0x94 = 0xe7" "inv_sbox 0x95 = 0xad" "inv_sbox 0x96 = 0x35" "inv_sbox 0x97 = 0x85"
  "inv_sbox 0x98 = 0xe2" "inv_sbox 0x99 = 0xf9" "inv_sbox 0x9a = 0x37" "inv_sbox 0x9b = 0xe8"
  "inv_sbox 0x9c = 0x1c" "inv_sbox 0x9d = 0x75" "inv_sbox 0x9e = 0xdf" "inv_sbox 0x9f = 0x6e"
  "inv_sbox 0xa0 = 0x47" "inv_sbox 0xa1 = 0xf1" "inv_sbox 0xa2 = 0x1a" "inv_sbox 0xa3 = 0x71"
  "inv_sbox 0xa4 = 0x1d" "inv_sbox 0xa5 = 0x29" "inv_sbox 0xa6 = 0xc5" "inv_sbox 0xa7 = 0x89"
  "inv_sbox 0xa8 = 0x6f" "inv_sbox 0xa9 = 0xb7" "inv_sbox 0xaa = 0x62" "inv_sbox 0xab = 0x0e"
  "inv_sbox 0xac = 0xaa" "inv_sbox 0xad = 0x18" "inv_sbox 0xae = 0xbe" "inv_sbox 0xaf = 0x1b"
  "inv_sbox 0xb0 = 0xfc" "inv_sbox 0xb1 = 0x56" "inv_sbox 0xb2 = 0x3e" "inv_sbox 0xb3 = 0x4b"
  "inv_sbox 0xb4 = 0xc6" "inv_sbox 0xb5 = 0xd2" "inv_sbox 0xb6 = 0x79" "inv_sbox 0xb7 = 0x20"
  "inv_sbox 0xb8 = 0x9a" "inv_sbox 0xb9 = 0xdb" "inv_sbox 0xba = 0xc0" "inv_sbox 0xbb = 0xfe"
  "inv_sbox 0xbc = 0x78" "inv_sbox 0xbd = 0xcd" "inv_sbox 0xbe = 0x5a" "inv_sbox 0xbf = 0xf4"
  "inv_sbox 0xc0 = 0x1f" "inv_sbox 0xc1 = 0xdd" "inv_sbox 0xc2 = 0xa8" "inv_sbox 0xc3 = 0x33"
  "inv_sbox 0xc4 = 0x88" "inv_sbox 0xc5 = 0x07" "inv_sbox 0xc6 = 0xc7" "inv_sbox 0xc7 = 0x31"
  "inv_sbox 0xc8 = 0xb1" "inv_sbox 0xc9 = 0x12" "inv_sbox 0xca = 0x10" "inv_sbox 0xcb = 0x59"
  "inv_sbox 0xcc = 0x27" "inv_sbox 0xcd = 0x80" "inv_sbox 0xce = 0xec" "inv_sbox 0xcf = 0x5f"
  "inv_sbox 0xd0 = 0x60" "inv_sbox 0xd1 = 0x51" "inv_sbox 0xd2 = 0x7f" "inv_sbox 0xd3 = 0xa9"
  "inv_sbox 0xd4 = 0x19" "inv_sbox 0xd5 = 0xb5" "inv_sbox 0xd6 = 0x4a" "inv_sbox 0xd7 = 0x0d"
  "inv_sbox 0xd8 = 0x2d" "inv_sbox 0xd9 = 0xe5" "inv_sbox 0xda = 0x7a" "inv_sbox 0xdb = 0x9f"
  "inv_sbox 0xdc = 0x93" "inv_sbox 0xdd = 0xc9" "inv_sbox 0xde = 0x9c" "inv_sbox 0xdf = 0xef"
  "inv_sbox 0xe0 = 0xa0" "inv_sbox 0xe1 = 0xe0" "inv_sbox 0xe2 = 0x3b" "inv_sbox 0xe3 = 0x4d"
  "inv_sbox 0xe4 = 0xae" "inv_sbox 0xe5 = 0x2a" "inv_sbox 0xe6 = 0xf5" "inv_sbox 0xe7 = 0xb0"
  "inv_sbox 0xe8 = 0xc8" "inv_sbox 0xe9 = 0xeb" "inv_sbox 0xea = 0xbb" "inv_sbox 0xeb = 0x3c"
  "inv_sbox 0xec = 0x83" "inv_sbox 0xed = 0x53" "inv_sbox 0xee = 0x99" "inv_sbox 0xef = 0x61"
  "inv_sbox 0xf0 = 0x17" "inv_sbox 0xf1 = 0x2b" "inv_sbox 0xf2 = 0x04" "inv_sbox 0xf3 = 0x7e"
  "inv_sbox 0xf4 = 0xba" "inv_sbox 0xf5 = 0x77" "inv_sbox 0xf6 = 0xd6" "inv_sbox 0xf7 = 0x26"
  "inv_sbox 0xf8 = 0xe1" "inv_sbox 0xf9 = 0x69" "inv_sbox 0xfa = 0x14" "inv_sbox 0xfb = 0x63"
  "inv_sbox 0xfc = 0x55" "inv_sbox 0xfd = 0x21" "inv_sbox 0xfe = 0x0c" "inv_sbox 0xff = 0x7d"
  by (simp_all add: inv_sbox_def inv_sbox_table_def)

lemma xtime_rules:
  "xtime 0x00 = 0x00" "xtime 0x01 = 0x02" "xtime 0x02 = 0x04" "xtime 0x03 = 0x06"
  "xtime 0x04 = 0x08" "xtime 0x05 = 0x0a" "xtime 0x06 = 0x0c" "xtime 0x07 = 0x0e"
  "xtime 0x08 = 0x10" "xtime 0x09 = 0x12" "xtime 0x0a = 0x14" "xtime 0x0b = 0x16"
  "xtime 0x0c = 0x18" "xtime 0x0d = 0x1a" "xtime 0x0e = 0x1c" "xtime 0x0f = 0x1e"
  "xtime 0x10 = 0x20" "xtime 0x11 = 0x22" "xtime 0x12 = 0x24" "xtime 0x13 = 0x26"
  "xtime 0x14 = 0x28" "xtime 0x15 = 0x2a" "xtime 0x16 = 0x2c" "xtime 0x17 = 0x2e"
  "xtime 0x18 = 0x30" "xtime 0x19 = 0x32" "xtime 0x1a = 0x34" "xtime 0x1b = 0x36"
  "xtime 0x1c = 0x38" "xtime 0x1d = 0x3a" "xtime 0x1e = 0x3c" "xtime 0x1f = 0x3e"
  "xtime 0x20 = 0x40" "xtime 0x21 = 0x42" "xtime 0x22 = 0x44" "xtime 0x23 = 0x46"
  "xtime 0x24 = 0x48" "xtime 0x25 = 0x4a" "xtime 0x26 = 0x4c" "xtime 0x27 = 0x4e"
  "xtime 0x28 = 0x50" "xtime 0x29 = 0x52" "xtime 0x2a = 0x54" "xtime 0x2b = 0x56"
  "xtime 0x2c = 0x58" "xtime 0x2d = 0x5a" "xtime 0x2e = 0x5c" "xtime 0x2f = 0x5e"
  "xtime 0x30 = 0x60" "xtime 0x31 = 0x62" "xtime 0x32 = 0x64" "xtime 0x33 = 0x66"
  "xtime 0x34 = 0x68" "xtime 0x35 = 0x6a" "xtime 0x36 = 0x6c" "xtime 0x37 = 0x6e"
  "xtime 0x38 = 0x70" "xtime 0x39 = 0x72" "xtime 0x3a = 0x74" "xtime 0x3b = 0x76"
  "xtime 0x3c = 0x78" "xtime 0x3d = 0x7a" "xtime 0x3e = 0x7c" "xtime 0x3f = 0x7e"
  "xtime 0x40 = 0x80" "xtime 0x41 = 0x82" "xtime 0x42 = 0x84" "xtime 0x43 = 0x86"
  "xtime 0x44 = 0x88" "xtime 0x45 = 0x8a" "xtime 0x46 = 0x8c" "xtime 0x47 = 0x8e"
  "xtime 0x48 = 0x90" "xtime 0x49 = 0x92" "xtime 0x4a = 0x94" "xtime 0x4b = 0x96"
  "xtime 0x4c = 0x98" "xtime 0x4d = 0x9a" "xtime 0x4e = 0x9c" "xtime 0x4f = 0x9e"
  "xtime 0x50 = 0xa0" "xtime 0x51 = 0xa2" "xtime 0x52 = 0xa4" "xtime 0x53 = 0xa6"
  "xtime 0x54 = 0xa8" "xtime 0x55 = 0xaa" "xtime 0x56 = 0xac" "xtime 0x57 = 0xae"
  "xtime 0x58 = 0xb0" "xtime 0x59 = 0xb2" "xtime 0x5a = 0xb4" "xtime 0x5b = 0xb6"
  "xtime 0x5c = 0xb8" "xtime 0x5d = 0xba" "xtime 0x5e = 0xbc" "xtime 0x5f = 0xbe"
  "xtime 0x60 = 0xc0" "xtime 0x61 = 0xc2" "xtime 0x62 = 0xc4" "xtime 0x63 = 0xc6"
  "xtime 0x64 = 0xc8" "xtime 0x65 = 0xca" "xtime 0x66 = 0xcc" "xtime 0x67 = 0xce"
  "xtime 0x68 = 0xd0" "xtime 0x69 = 0xd2" "xtime 0x6a = 0xd4" "xtime 0x6b = 0xd6"
  "xtime 0x6c = 0xd8" "xtime 0x6d = 0xda" "xtime 0x6e = 0xdc" "xtime 0x6f = 0xde"
  "xtime 0x70 = 0xe0" "xtime 0x71 = 0xe2" "xtime 0x72 = 0xe4" "xtime 0x73 = 0xe6"
  "xtime 0x74 = 0xe8" "xtime 0x75 = 0xea" "xtime 0x76 = 0xec" "xtime 0x77 = 0xee"
  "xtime 0x78 = 0xf0" "xtime 0x79 = 0xf2" "xtime 0x7a = 0xf4" "xtime 0x7b = 0xf6"
  "xtime 0x7c = 0xf8" "xtime 0x7d = 0xfa" "xtime 0x7e = 0xfc" "xtime 0x7f = 0xfe"
  "xtime 0x80 = 0x1b" "xtime 0x81 = 0x19" "xtime 0x82 = 0x1f" "xtime 0x83 = 0x1d"
  "xtime 0x84 = 0x13" "xtime 0x85 = 0x11" "xtime 0x86 = 0x17" "xtime 0x87 = 0x15"
  "xtime 0x88 = 0x0b" "xtime 0x89 = 0x09" "xtime 0x8a = 0x0f" "xtime 0x8b = 0x0d"
  "xtime 0x8c = 0x03" "xtime 0x8d = 0x01" "xtime 0x8e = 0x07" "xtime 0x8f = 0x05"
  "xtime 0x90 = 0x3b" "xtime 0x91 = 0x39" "xtime 0x92 = 0x3f" "xtime 0x93 = 0x3d"
  "xtime 0x94 = 0x33" "xtime 0x95 = 0x31" "xtime 0x96 = 0x37" "xtime 0x97 = 0x35"
  "xtime 0x98 = 0x2b" "xtime 0x99 = 0x29" "xtime 0x9a = 0x2f" "xtime 0x9b = 0x2d"
  "xtime 0x9c = 0x23" "xtime 0x9d = 0x21" "xtime 0x9e = 0x27" "xtime 0x9f = 0x25"
  "xtime 0xa0 = 0x5b" "xtime 0xa1 = 0x59" "xtime 0xa2 = 0x5f" "xtime 0xa3 = 0x5d"
  "xtime 0xa4 = 0x53" "xtime 0xa5 = 0x51" "xtime 0xa6 = 0x57" "xtime 0xa7 = 0x55"
  "xtime 0xa8 = 0x4b" "xtime 0xa9 = 0x49" "xtime 0xaa = 0x4f" "xtime 0xab = 0x4d"
  "xtime 0xac = 0x43" "xtime 0xad = 0x41" "xtime 0xae = 0x47" "xtime 0xaf = 0x45"
  "xtime 0xb0 = 0x7b" "xtime 0xb1 = 0x79" "xtime 0xb2 = 0x7f" "xtime 0xb3 = 0x7d"
  "xtime 0xb4 = 0x73" "xtime 0xb5 = 0x71" "xtime 0xb6 = 0x77" "xtime 0xb7 = 0x75"
  "xtime 0xb8 = 0x6b" "xtime 0xb9 = 0x69" "xtime 0xba = 0x6f" "xtime 0xbb = 0x6d"
  "xtime 0xbc = 0x63" "xtime 0xbd = 0x61" "xtime 0xbe = 0x67" "xtime 0xbf = 0x65"
  "xtime 0xc0 = 0x9b" "xtime 0xc1 = 0x99" "xtime 0xc2 = 0x9f" "xtime 0xc3 = 0x9d"
  "xtime 0xc4 = 0x93" "xtime 0xc5 = 0x91" "xtime 0xc6 = 0x97" "xtime 0xc7 = 0x95"
  "xtime 0xc8 = 0x8b" "xtime 0xc9 = 0x89" "xtime 0xca = 0x8f" "xtime 0xcb = 0x8d"
  "xtime 0xcc = 0x83" "xtime 0xcd = 0x81" "xtime 0xce = 0x87" "xtime 0xcf = 0x85"
  "xtime 0xd0 = 0xbb" "xtime 0xd1 = 0xb9" "xtime 0xd2 = 0xbf" "xtime 0xd3 = 0xbd"
  "xtime 0xd4 = 0xb3" "xtime 0xd5 = 0xb1" "xtime 0xd6 = 0xb7" "xtime 0xd7 = 0xb5"
  "xtime 0xd8 = 0xab" "xtime 0xd9 = 0xa9" "xtime 0xda = 0xaf" "xtime 0xdb = 0xad"
  "xtime 0xdc = 0xa3" "xtime 0xdd = 0xa1" "xtime 0xde = 0xa7" "xtime 0xdf = 0xa5"
  "xtime 0xe0 = 0xdb" "xtime 0xe1 = 0xd9" "xtime 0xe2 = 0xdf" "xtime 0xe3 = 0xdd"
  "xtime 0xe4 = 0xd3" "xtime 0xe5 = 0xd1" "xtime 0xe6 = 0xd7" "xtime 0xe7 = 0xd5"
  "xtime 0xe8 = 0xcb" "xtime 0xe9 = 0xc9" "xtime 0xea = 0xcf" "xtime 0xeb = 0xcd"
  "xtime 0xec = 0xc3" "xtime 0xed = 0xc1" "xtime 0xee = 0xc7" "xtime 0xef = 0xc5"
  "xtime 0xf0 = 0xfb" "xtime 0xf1 = 0xf9" "xtime 0xf2 = 0xff" "xtime 0xf3 = 0xfd"
  "xtime 0xf4 = 0xf3" "xtime 0xf5 = 0xf1" "xtime 0xf6 = 0xf7" "xtime 0xf7 = 0xf5"
  "xtime 0xf8 = 0xeb" "xtime 0xf9 = 0xe9" "xtime 0xfa = 0xef" "xtime 0xfb = 0xed"
  "xtime 0xfc = 0xe3" "xtime 0xfd = 0xe1" "xtime 0xfe = 0xe7" "xtime 0xff = 0xe5"
  by (simp_all add: xtime_def)

lemma expand_loop_numeral:
  "expand_loop nk i (numeral n) win acc =
     expand_loop nk (Suc i) (pred_numeral n)
       (tl win @ [expand_word nk i (hd win) (last win)])
       (expand_word nk i (hd win) (last win) # acc)"
  by (simp add: numeral_eq_Suc)

lemma inv_rounds_numeral:
  "inv_rounds w (numeral n) s =
     inv_rounds w (pred_numeral n)
       (inv_mix_columns (xor_bytes (map inv_sbox (inv_shift_rows s)) (round_key w (numeral n))))"
  by (simp add: numeral_eq_Suc)

lemmas key_eval = key_expansion_def expand_loop_numeral expand_word_def xor_bytes_def
  rot_word_def rcon_def sbox_rules

lemmas round_eval = inv_cipher_def inv_rounds_numeral round_key_def
  inv_shift_rows_def inv_sbox_rules mul9_def mul11_def mul13_def mul14_def
  xtime_rules

section \<open>Properties of the cipher and the slices\<close>

declare ecb_decrypt.simps [simp del] descramble.simps [simp del] packets.simps [simp del]

lemma length_xor_bytes [simp]: "length (xor_bytes xs ys) = min (length xs) (length ys)"
  by (simp add: xor_bytes_def)

lemma length_inv_shift_rows [simp]: "length (inv_shift_rows s) = 16"
  by (simp add: inv_shift_rows_def)

lemma length_inv_rounds: "length (inv_rounds w r s) = min 16 (length (round_key w 0))"
  by (induction r arbitrary: s) simp_all

lemma expand_loop_prefix: "\<exists>ys. expand_loop nk i n win acc = rev acc @ ys"
proof (induction n arbitrary: i win acc)
  case 0
  then show ?case by simp
next
  case (Suc n)
  from Suc.IH [of "Suc i" "tl win @ [expand_word nk i (hd win) (last win)]"
      "expand_word nk i (hd win) (last win) # acc"]
  show ?case by auto
qed

lemma concat_take_chunks4: "4 * n \<le> length xs \<Longrightarrow> concat (take n (chunks4 xs)) = take (4 * n) xs"
proof (induction xs arbitrary: n rule: chunks4.induct)
  case (1 a b c d rest)
  show ?case
  proof (cases n)
    case 0
    then show ?thesis by simp
  next
    case (Suc m)
    have "take (4 + 4 * m) (a # b # c # d # rest) = a # b # c # d # take (4 * m) rest"
      by (simp add: take_Cons')
    with 1 Suc show ?thesis by simp
  qed
qed simp_all

lemma length_chunks4: "length (chunks4 xs) = length xs div 4"
  by (induction xs rule: chunks4.induct) simp_all

lemma round_key_0: "16 \<le> length key \<Longrightarrow> round_key (key_expansion key) 0 = take 16 key"
proof -
  assume len: "16 \<le> length key"
  obtain ys where ys: "key_expansion key = chunks4 key @ ys"
    unfolding key_expansion_def using expand_loop_prefix [of "length key div 4" "length key div 4" _ "chunks4 key" "rev (chunks4 key)"]
    by auto
  have "4 \<le> length (chunks4 key)" using len by (simp add: length_chunks4)
  then have "take 4 (key_expansion key) = take 4 (chunks4 key)" by (simp add: ys)
  then show ?thesis using len by (simp add: round_key_def concat_take_chunks4)
qed

lemma length_aes_decrypt_block:
  "16 \<le> length key \<Longrightarrow> length (aes_decrypt_block key src) = 16"
  by (simp add: aes_decrypt_block_def inv_cipher_def length_inv_rounds round_key_0)

lemma aes_decrypt_block_take: "16 \<le> n \<Longrightarrow> aes_decrypt_block key (take n src) = aes_decrypt_block key src"
  by (simp add: aes_decrypt_block_def min_def)

lemma Decrypt_valid:
  "NewCipher key = Some k \<Longrightarrow> 16 \<le> length src \<Longrightarrow> Decrypt (NewCipher key) src = Inr (aes_decrypt_block key src)"
  by (auto simp: NewCipher_def Decrypt_def split: if_splits)

lemma NewCipher_length: "NewCipher key = Some k \<Longrightarrow> k = key \<and> 16 \<le> length key"
  by (auto simp: NewCipher_def split: if_splits)

lemma ecb_decrypt_short: "length ct < 16 \<Longrightarrow> ecb_decrypt key ct = []"
  by (subst ecb_decrypt.simps) simp

lemma ecb_decrypt_step:
  "16 \<le> length ct \<Longrightarrow> ecb_decrypt key ct = aes_decrypt_block key ct @ ecb_decrypt key (drop 16 ct)"
  by (subst ecb_decrypt.simps) (simp add: aes_decrypt_block_take)

lemma ecb_decrypt_64:
  "length ct = 64 \<Longrightarrow>
   ecb_decrypt key ct =
     aes_decrypt_block key ct @ aes_decrypt_block key (drop 16 ct) @
     aes_decrypt_block key (drop 32 ct) @ aes_decrypt_block key (drop 48 ct)"
  by (simp add: ecb_decrypt_step ecb_decrypt_short)

lemma aes_decrypt_block_cong:
  "take 16 a = take 16 b \<Longrightarrow> aes_decrypt_block key a = aes_decrypt_block key b"
  by (simp add: aes_decrypt_block_def)

lemma ecm_blocks_plain:
  assumes key: "NewCipher key = Some k" and len: "93 \<le> slen pkt"
  shows "ecm_blocks (NewCipher key) pkt [0, 1, 2, 3] (replicate 64 0) =
           Inr (ecb_decrypt key (take 64 (drop 29 (elems pkt))))"
proof -
  let ?xs = "elems pkt"
  have k16: "16 \<le> length key" using key by (simp add: NewCipher_length)
  note L = length_aes_decrypt_block [OF k16]
  have len': "93 \<le> length ?xs" using len by (simp add: slen_def)
  have D: "\<And>n. n \<le> 77 \<Longrightarrow> Decrypt (NewCipher key) (drop n ?xs) = Inr (aes_decrypt_block key (drop n ?xs))"
    using len' by (intro Decrypt_valid [OF key]) simp
  have S: "\<And>n. n \<le> 77 \<Longrightarrow> slice_from pkt n = Inr \<lparr>elems = drop n ?xs, spare = spare pkt\<rparr>"
    using len' by (simp add: slice_from_def slen_def)
  have "length (take 64 (drop 29 ?xs)) = 64" using len' by simp
  note E = ecb_decrypt_64 [OF this, of key]
  have B0: "aes_decrypt_block key (take 64 (drop 29 ?xs)) = aes_decrypt_block key (drop 29 ?xs)"
    by (rule aes_decrypt_block_cong) simp
  have B1: "aes_decrypt_block key (drop 16 (take 64 (drop 29 ?xs))) = aes_decrypt_block key (drop 45 ?xs)"
    by (rule aes_decrypt_block_cong) (simp add: drop_take)
  have B2: "aes_decrypt_block key (drop 32 (take 64 (drop 29 ?xs))) = aes_decrypt_block key (drop 61 ?xs)"
    by (rule aes_decrypt_block_cong) (simp add: drop_take)
  have B3: "aes_decrypt_block key (drop 48 (take 64 (drop 29 ?xs))) = aes_decrypt_block key (drop 77 ?xs)"
    by (rule aes_decrypt_block_cong) (simp add: drop_take)
  show ?thesis
    by (simp add: E S D L B0 B1 B2 B3)
qed

lemma and3_cases: "(x :: byte) AND 3 < 2 \<or> x AND 3 = 2 \<or> x AND 3 = 3"
proof -
  have "unat (x AND 3) \<le> 3"
    using word_and_le1 [of x 3] by (simp add: word_le_nat_alt)
  then consider "unat (x AND 3) = 0" | "unat (x AND 3) = 1" | "unat (x AND 3) = 2" | "unat (x AND 3) = 3"
    by linarith
  then show ?thesis
  proof cases
    case 1 then have "x AND 3 = 0" using word_unat_eq_iff [of "x AND 3" 0] by simp
    then show ?thesis by simp
  next
    case 2 then have "x AND 3 = 1" using word_unat_eq_iff [of "x AND 3" 1] by simp
    then show ?thesis by simp
  next
    case 3 then have "x AND 3 = 2" using word_unat_eq_iff [of "x AND 3" 2] by simp
    then show ?thesis by simp
  next
    case 4 then have "x AND 3 = 3" using word_unat_eq_iff [of "x AND 3" 3] by simp
    then show ?thesis by simp
  qed
qed

lemma descramble_ecb:
  assumes key: "NewCipher key = Some k"
  shows "descramble (NewCipher key) body =
           Inr (ecb_decrypt key (take (16 * ((length body - 1) div 16)) body) @
                drop (16 * ((length body - 1) div 16)) body)"
proof (induction "length body" arbitrary: body rule: less_induct)
  case less
  show ?case
  proof (cases "16 < length body")
    case False
    then have "(length body - 1) div 16 = 0" by simp
    moreover have "descramble (NewCipher key) body = Inr body"
      using False by (subst descramble.simps) simp
    ultimately show ?thesis
      by (simp add: ecb_decrypt_short)
  next
    case True
    define m where "m = (length body - 1) div 16"
    define m' where "m' = (length (drop 16 body) - 1) div 16"
    have "length body - 1 = (length body - 17) + 16" using True by simp
    then have "(length body - 1) div 16 = (length body - 17) div 16 + 1"
      by (simp only: div_add_self2)
    then have m: "16 * m = 16 * m' + 16" unfolding m_def m'_def by simp
    have "16 * m \<le> length body - 1" unfolding m_def by (rule times_div_less_eq_dividend)
    then have le: "16 * m \<le> length body" by simp
    have IH: "descramble (NewCipher key) (drop 16 body) =
           Inr (ecb_decrypt key (take (16 * m') (drop 16 body)) @ drop (16 * m') (drop 16 body))"
      using less [of "drop 16 body"] True by (simp add: m'_def)
    have D: "Decrypt (NewCipher key) body = Inr (aes_decrypt_block key body)"
      using True by (intro Decrypt_valid [OF key]) simp
    have "ecb_decrypt key (take (16 * m) body) =
            aes_decrypt_block key (take (16 * m) body) @ ecb_decrypt key (drop 16 (take (16 * m) body))"
      using le m by (intro ecb_decrypt_step) simp
    also have "aes_decrypt_block key (take (16 * m) body) = aes_decrypt_block key body"
      using m by (intro aes_decrypt_block_take) simp
    also have "drop 16 (take (16 * m) body) = take (16 * m') (drop 16 body)"
      using m by (simp add: drop_take)
    finally have E: "ecb_decrypt key (take (16 * m) body) =
        aes_decrypt_block key body @ ecb_decrypt key (take (16 * m') (drop 16 body))" .
    have R: "drop (16 * m') (drop 16 body) = drop (16 * m) body"
      using m by (simp add: add.commute)
    have "descramble (NewCipher key) body =
            Inr (ecb_decrypt key (take (16 * m) body) @ drop (16 * m) body)"
      using True by (subst descramble.simps) (simp add: D IH E R del: drop_drop)
    then show ?thesis by (simp add: m_def)
  qed
qed

lemma length_ecb_decrypt:
  "16 \<le> length key \<Longrightarrow> length (ecb_decrypt key ct) = 16 * (length ct div 16)"
proof (induction "length ct" arbitrary: ct rule: less_induct)
  case less
  show ?case
  proof (cases "length ct < 16")
    case True
    then show ?thesis by (simp add: ecb_decrypt_short)
  next
    case False
    then have IH: "length (ecb_decrypt key (drop 16 ct)) = 16 * ((length ct - 16) div 16)"
      using less by simp
    have "length ct = (length ct - 16) + 16" using False by simp
    then have "length ct div 16 = (length ct - 16) div 16 + 1"
      by (metis div_add_self2 zero_neq_numeral)
    with False less.prems IH show ?thesis
      by (simp add: ecb_decrypt_step length_aes_decrypt_block)
  qed
qed

lemma scramble_ge2:
  "\<not> scramble_bits pkt < 2 \<Longrightarrow> scramble_bits pkt = 2 \<or> scramble_bits pkt = 3"
  using and3_cases [of "drop_bit 6 (elems pkt ! 3)"] by (auto simp: scramble_bits_def)

lemma decryptPacket_descrambles:
  assumes len: "4 \<le> slen pkt"
    and sc: "\<not> scramble_bits pkt < 2"
    and k1: "aesKey1 ch = Some k1" "length k1 = 16"
    and k2: "aesKey2 ch = Some k2" "length k2 = 16"
  shows "decryptPacket ch pkt =
     Inr (pkt\<lparr>elems := take 4 (elems pkt) @
            ecb_decrypt (if scramble_bits pkt = 2 then k2 else k1)
              (take (16 * ((slen pkt - 5) div 16)) (drop 4 (elems pkt))) @
            drop (4 + 16 * ((slen pkt - 5) div 16)) (elems pkt)\<rparr>)"
proof -
  define key where "key = (if scramble_bits pkt = 2 then k2 else k1)"
  have sel: "select_key ch (scramble_bits pkt) = Some key"
    using scramble_ge2 [OF sc] k1 k2 by (auto simp: select_key_def key_def)
  have nc: "NewCipher key = Some key"
    using k1 k2 by (simp add: NewCipher_def key_def)
  have at3: "at pkt 3 = Inr (elems pkt ! 3)" using len by (simp add: at_def)
  have sf: "slice_from pkt 4 = Inr \<lparr>elems = drop 4 (elems pkt), spare = spare pkt\<rparr>"
    using len by (simp add: slice_from_def)
  have n: "length (drop 4 (elems pkt)) - 1 = slen pkt - 5" by (simp add: slen_def)
  note D = descramble_ecb [OF nc, of "drop 4 (elems pkt)", unfolded n]
  show ?thesis
    using sc k1 k2
    by (simp add: decryptPacket_def at3 sf sel D scramble_bits_def [symmetric] Let_def key_def [symmetric] add.commute)
qed

lemma decryptPacket_passes:
  assumes "4 \<le> slen pkt"
    and "scramble_bits pkt < 2 \<or> select_key ch (scramble_bits pkt) = None"
  shows "decryptPacket ch pkt = Inr pkt"
proof (cases "aesKey1 ch = None \<or> aesKey2 ch = None")
  case True
  then show ?thesis by (auto simp: decryptPacket_def)
next
  case False
  have "scramble_bits pkt < 2"
  proof (rule ccontr)
    assume n: "\<not> scramble_bits pkt < 2"
    with assms(2) have "select_key ch (scramble_bits pkt) = None" by simp
    with scramble_ge2 [OF n] False show False by (auto simp: select_key_def)
  qed
  with assms(1) False show ?thesis
    by (simp add: decryptPacket_def at_def scramble_bits_def Let_def)
qed

subsection \<open>The cipher on the example inputs\<close>

lemma aes_decrypt_block_trim:
  "16 < length src \<Longrightarrow> aes_decrypt_block key src = aes_decrypt_block key (take 16 src)"
  by (simp add: aes_decrypt_block_take)

lemma fips_schedule128:
  "key_expansion fips_key128 =
     [[0x00, 0x01, 0x02, 0x03], [0x04, 0x05, 0x06, 0x07], [0x08, 0x09, 0x0a, 0x0b], [0x0c, 0x0d, 0x0e, 0x0f],
      [0xd6, 0xaa, 0x74, 0xfd], [0xd2, 0xaf, 0x72, 0xfa], [0xda, 0xa6, 0x78, 0xf1], [0xd6, 0xab, 0x76, 0xfe],
      [0xb6, 0x92, 0xcf, 0x0b], [0x64, 0x3d, 0xbd, 0xf1], [0xbe, 0x9b, 0xc5, 0x00], [0x68, 0x30, 0xb3, 0xfe],
      [0xb6, 0xff, 0x74, 0x4e], [0xd2, 0xc2, 0xc9, 0xbf], [0x6c, 0x59, 0x0c, 0xbf], [0x04, 0x69, 0xbf, 0x41],
      [0x47, 0xf7, 0xf7, 0xbc], [0x95, 0x35, 0x3e, 0x03], [0xf9, 0x6c, 0x32, 0xbc], [0xfd, 0x05, 0x8d, 0xfd],
      [0x3c, 0xaa, 0xa3, 0xe8], [0xa9, 0x9f, 0x9d, 0xeb], [0x50, 0xf3, 0xaf, 0x57], [0xad, 0xf6, 0x22, 0xaa],
      [0x5e, 0x39, 0x0f, 0x7d], [0xf7, 0xa6, 0x92, 0x96], [0xa7, 0x55, 0x3d, 0xc1], [0x0a, 0xa3, 0x1f, 0x6b],
      [0x14, 0xf9, 0x70, 0x1a], [0xe3, 0x5f, 0xe2, 0x8c], [0x44, 0x0a, 0xdf, 0x4d], [0x4e, 0xa9, 0xc0, 0x26],
      [0x47, 0x43, 0x87, 0x35], [0xa4, 0x1c, 0x65, 0xb9], [0xe0, 0x16, 0xba, 0xf4], [0xae, 0xbf, 0x7a, 0xd2],
      [0x54, 0x99, 0x32, 0xd1], [0xf0, 0x85, 0x57, 0x68], [0x10, 0x93, 0xed, 0x9c], [0xbe, 0x2c, 0x97, 0x4e],
      [0x13, 0x11, 0x1d, 0x7f], [0xe3, 0x94, 0x4a, 0x17], [0xf3, 0x07, 0xa7, 0x8b], [0x4d, 0x2b, 0x30, 0xc5]]"
  by (simp add: fips_key128_def key_eval)

lemma fips_schedule192:
  "key_expansion fips_key192 =
     [[0x00, 0x01, 0x02, 0x03], [0x04, 0x05, 0x06, 0x07], [0x08, 0x09, 0x0a, 0x0b], [0x0c, 0x0d, 0x0e, 0x0f],
      [0x10, 0x11, 0x12, 0x13], [0x14, 0x15, 0x16, 0x17], [0x58, 0x46, 0xf2, 0xf9], [0x5c, 0x43, 0xf4, 0xfe],
      [0x54, 0x4a, 0xfe, 0xf5], [0x58, 0x47, 0xf0, 0xfa], [0x48, 0x56, 0xe2, 0xe9], [0x5c, 0x43, 0xf4, 0xfe],
      [0x40, 0xf9, 0x49, 0xb3], [0x1c, 0xba, 0xbd, 0x4d], [0x48, 0xf0, 0x43, 0xb8], [0x10, 0xb7, 0xb3, 0x42],
      [0x58, 0xe1, 0x51, 0xab], [0x04, 0xa2, 0xa5, 0x55], [0x7e, 0xff, 0xb5, 0x41], [0x62, 0x45, 0x08, 0x0c],
      [0x2a, 0xb5, 0x4b, 0xb4], [0x3a, 0x02, 0xf8, 0xf6], [0x62, 0xe3, 0xa9, 0x5d], [0x66, 0x41, 0x0c, 0x08],
      [0xf5, 0x01, 0x85, 0x72], [0x97, 0x44, 0x8d, 0x7e], [0xbd, 0xf1, 0xc6, 0xca], [0x87, 0xf3, 0x3e, 0x3c],
      [0xe5, 0x10, 0x97, 0x61], [0x83, 0x51, 0x9b, 0x69], [0x34, 0x15, 0x7c, 0x9e], [0xa3, 0x51, 0xf1, 0xe0],
      [0x1e, 0xa0, 0x37, 0x2a], [0x99, 0x53, 0x09, 0x16], [0x7c, 0x43, 0x9e, 0x77], [0xff, 0x12, 0x05, 0x1e],
      [0xdd, 0x7e, 0x0e, 0x88], [0x7e, 0x2f, 0xff, 0x68], [0x60, 0x8f, 0xc8, 0x42], [0xf9, 0xdc, 0xc1, 0x54],
      [0x85, 0x9f, 0x5f, 0x23], [0x7a, 0x8d, 0x5a, 0x3d], [0xc0, 0xc0, 0x29, 0x52], [0xbe, 0xef, 0xd6, 0x3a],
      [0xde, 0x60, 0x1e, 0x78], [0x27, 0xbc, 0xdf, 0x2c], [0xa2, 0x23, 0x80, 0x0f], [0xd8, 0xae, 0xda, 0x32],
      [0xa4, 0x97, 0x0a, 0x33], [0x1a, 0x78, 0xdc, 0x09], [0xc4, 0x18, 0xc2, 0x71], [0xe3, 0xa4, 0x1d, 0x5d]]"
  by (simp add: fips_key192_def key_eval)

lemma fips_schedule256:
  "key_expansion fips_key256 =
     [[0x00, 0x01, 0x02, 0x03], [0x04, 0x05, 0x06, 0x07], [0x08, 0x09, 0x0a, 0x0b], [0x0c, 0x0d, 0x0e, 0x0f],
      [0x10, 0x11, 0x12, 0x13], [0x14, 0x15, 0x16, 0x17], [0x18, 0x19, 0x1a, 0x1b], [0x1c, 0x1d, 0x1e, 0x1f],
      [0xa5, 0x73, 0xc2, 0x9f], [0xa1, 0x76, 0xc4, 0x98], [0xa9, 0x7f, 0xce, 0x93], [0xa5, 0x72, 0xc0, 0x9c],
      [0x16, 0x51, 0xa8, 0xcd], [0x02, 0x44, 0xbe, 0xda], [0x1a, 0x5d, 0xa4, 0xc1], [0x06, 0x40, 0xba, 0xde],
      [0xae, 0x87, 0xdf, 0xf0], [0x0f, 0xf1, 0x1b, 0x68], [0xa6, 0x8e, 0xd5, 0xfb], [0x03, 0xfc, 0x15, 0x67],
      [0x6d, 0xe1, 0xf1, 0x48], [0x6f, 0xa5, 0x4f, 0x92], [0x75, 0xf8, 0xeb, 0x53], [0x73, 0xb8, 0x51, 0x8d],
      [0xc6, 0x56, 0x82, 0x7f], [0xc9, 0xa7, 0x99, 0x17], [0x6f, 0x29, 0x4c, 0xec], [0x6c, 0xd5, 0x59, 0x8b],
      [0x3d, 0xe2, 0x3a, 0x75], [0x52, 0x47, 0x75, 0xe7], [0x27, 0xbf, 0x9e, 0xb4], [0x54, 0x07, 0xcf, 0x39],
      [0x0b, 0xdc, 0x90, 0x5f], [0xc2, 0x7b, 0x09, 0x48], [0xad, 0x52, 0x45, 0xa4], [0xc1, 0x87, 0x1c, 0x2f],
      [0x45, 0xf5, 0xa6, 0x60], [0x17, 0xb2, 0xd3, 0x87], [0x30, 0x0d, 0x4d, 0x33], [0x64, 0x0a, 0x82, 0x0a],
      [0x7c, 0xcf, 0xf7, 0x1c], [0xbe, 0xb4, 0xfe, 0x54], [0x13, 0xe6, 0xbb, 0xf0], [0xd2, 0x61, 0xa7, 0xdf],
      [0xf0, 0x1a, 0xfa, 0xfe], [0xe7, 0xa8, 0x29, 0x79], [0xd7, 0xa5, 0x64, 0x4a], [0xb3, 0xaf, 0xe6, 0x40],
      [0x25, 0x41, 0xfe, 0x71], [0x9b, 0xf5, 0x00, 0x25], [0x88, 0x13, 0xbb, 0xd5], [0x5a, 0x72, 0x1c, 0x0a],
      [0x4e, 0x5a, 0x66, 0x99], [0xa9, 0xf2, 0x4f, 0xe0], [0x7e, 0x57, 0x2b, 0xaa], [0xcd, 0xf8, 0xcd, 0xea],
      [0x24, 0xfc, 0x79, 0xcc], [0xbf, 0x09, 0x79, 0xe9], [0x37, 0x1a, 0xc2, 0x3c], [0x6d, 0x68, 0xde, 0x36]]"
  by (simp add: fips_key256_def key_eval)

lemma fips197_c1: "aes_decrypt_block fips_key128 fips_cipher128 = fips_plain"
  unfolding aes_decrypt_block_def fips_schedule128
  by (simp add: fips_key128_def fips_cipher128_def fips_plain_def xor_bytes_def round_eval)

lemma fips197_c2: "aes_decrypt_block fips_key192 fips_cipher192 = fips_plain"
  unfolding aes_decrypt_block_def fips_schedule192
  by (simp add: fips_key192_def fips_cipher192_def fips_plain_def xor_bytes_def round_eval)

lemma fips197_c3: "aes_decrypt_block fips_key256 fips_cipher256 = fips_plain"
  unfolding aes_decrypt_block_def fips_schedule256
  by (simp add: fips_key256_def fips_cipher256_def fips_plain_def xor_bytes_def round_eval)

lemma zero_schedule:
  "key_expansion zero_key =
     [[0x00, 0x00, 0x00, 0x00], [0x00, 0x00, 0x00, 0x00], [0x00, 0x00, 0x00, 0x00], [0x00, 0x00, 0x00, 0x00],
      [0x62, 0x63, 0x63, 0x63], [0x62, 0x63, 0x63, 0x63], [0x62, 0x63, 0x63, 0x63], [0x62, 0x63, 0x63, 0x63],
      [0x9b, 0x98, 0x98, 0xc9], [0xf9, 0xfb, 0xfb, 0xaa], [0x9b, 0x98, 0x98, 0xc9], [0xf9, 0xfb, 0xfb, 0xaa],
      [0x90, 0x97, 0x34, 0x50], [0x69, 0x6c, 0xcf, 0xfa], [0xf2, 0xf4, 0x57, 0x33], [0x0b, 0x0f, 0xac, 0x99],
      [0xee, 0x06, 0xda, 0x7b], [0x87, 0x6a, 0x15, 0x81], [0x75, 0x9e, 0x42, 0xb2], [0x7e, 0x91, 0xee, 0x2b],
      [0x7f, 0x2e, 0x2b, 0x88], [0xf8, 0x44, 0x3e, 0x09], [0x8d, 0xda, 0x7c, 0xbb], [0xf3, 0x4b, 0x92, 0x90],
      [0xec, 0x61, 0x4b, 0x85], [0x14, 0x25, 0x75, 0x8c], [0x99, 0xff, 0x09, 0x37], [0x6a, 0xb4, 0x9b, 0xa7],
      [0x21, 0x75, 0x17, 0x87], [0x35, 0x50, 0x62, 0x0b], [0xac, 0xaf, 0x6b, 0x3c], [0xc6, 0x1b, 0xf0, 0x9b],
      [0x0e, 0xf9, 0x03, 0x33], [0x3b, 0xa9, 0x61, 0x38], [0x97, 0x06, 0x0a, 0x04], [0x51, 0x1d, 0xfa, 0x9f],
      [0xb1, 0xd4, 0xd8, 0xe2], [0x8a, 0x7d, 0xb9, 0xda], [0x1d, 0x7b, 0xb3, 0xde], [0x4c, 0x66, 0x49, 0x41],
      [0xb4, 0xef, 0x5b, 0xcb], [0x3e, 0x92, 0xe2, 0x11], [0x23, 0xe9, 0x51, 0xcf], [0x6f, 0x8f, 0x18, 0x8e]]"
  by (simp add: zero_key_def key_eval)

lemma ecm_block0:
  "aes_decrypt_block zero_key [0x4d, 0x49, 0xa1, 0xc5, 0x7b, 0xe2, 0x32, 0x79, 0xbf, 0x9c, 0x28, 0xd4, 0xe8, 0x03, 0xac, 0x9f] =
     [0x43, 0x45, 0x42, 0x00, 0x00, 0x00, 0x00, 0x00, 0x00, 0xa0, 0xa1, 0xa2, 0xa3, 0xa4, 0xa5, 0xa6]"
  unfolding aes_decrypt_block_def zero_schedule
  by (simp add: zero_key_def xor_bytes_def round_eval)

lemma ecm_block1:
  "aes_decrypt_block zero_key [0xb6, 0xd8, 0x30, 0xdc, 0x4c, 0x87, 0x29, 0x63, 0xf3, 0x8d, 0x71, 0xdc, 0x0c, 0xbe, 0x29, 0xb7] =
     [0xa7, 0xa8, 0xa9, 0xaa, 0xab, 0xac, 0xad, 0xae, 0xaf, 0xb0, 0xb1, 0xb2, 0xb3, 0xb4, 0xb5, 0xb6]"
  unfolding aes_decrypt_block_def zero_schedule
  by (simp add: zero_key_def xor_bytes_def round_eval)

lemma ecm_block2:
  "aes_decrypt_block zero_key [0x36, 0x65, 0x52, 0x08, 0x64, 0x1c, 0x6d, 0xf9, 0xbc, 0x89, 0x39, 0xb7, 0x1a, 0x66, 0x8e, 0x05] =
     [0xb7, 0xb8, 0xb9, 0xba, 0xbb, 0xbc, 0xbd, 0xbe, 0xbf, 0x00, 0x00, 0x00, 0x00, 0x00, 0x00, 0x00]"
  unfolding aes_decrypt_block_def zero_schedule
  by (simp add: zero_key_def xor_bytes_def round_eval)

lemma ecm_block3:
  "aes_decrypt_block zero_key [0x66, 0xe9, 0x4b, 0xd4, 0xef, 0x8a, 0x2c, 0x3b, 0x88, 0x4c, 0xfa, 0x59, 0xca, 0x34, 0x2b, 0x2e] =
     [0x00, 0x00, 0x00, 0x00, 0x00, 0x00, 0x00, 0x00, 0x00, 0x00, 0x00, 0x00, 0x00, 0x00, 0x00, 0x00]"
  unfolding aes_decrypt_block_def zero_schedule
  by (simp add: zero_key_def xor_bytes_def round_eval)

lemma ecm_cipher_plain: "ecb_decrypt zero_key ecm_cipher = ecm_plain"
  by (simp add: ecb_decrypt_64 ecm_cipher_def ecm_plain_def aes_decrypt_block_trim
      ecm_block0 ecm_block1 ecm_block2 ecm_block3)

lemma DecodeString_zero: "DecodeString zero_key_hex = zero_key"
  by (simp add: zero_key_hex_def zero_key_def fromHexChar_def)

lemma length_ecm_plaintext:
  assumes "NewCipher (DecodeString (masterKey ch)) = Some k" and "93 \<le> slen pkt"
  shows "length (ecm_plaintext ch pkt) = 64"
proof -
  have "16 \<le> length (DecodeString (masterKey ch))"
    using assms(1) by (simp add: NewCipher_length)
  then show ?thesis
    using assms(2) by (simp add: ecm_plaintext_def length_ecb_decrypt slen_def)
qed

lemma processECM_nil_cipher:
  "NewCipher (DecodeString (masterKey ch)) = None \<Longrightarrow> processECM ch pkt = (Inl Panic, ch)"
  by (simp add: processECM_def Decrypt_def slice_from_def)

lemma processECM_eq:
  assumes key: "NewCipher (DecodeString (masterKey ch)) = Some k" and len: "93 \<le> slen pkt"
  shows "processECM ch pkt =
     (let plain = ecm_plaintext ch pkt in
      if plain ! 0 \<noteq> 0x43 \<or> plain ! 1 \<noteq> 0x45 \<or> plain ! 2 \<noteq> 0x42 then (Inl EcmMagic, ch)
      else if elems pkt ! 5 = 0x81
        then (Inr (), ch\<lparr>aesKey1 := Some (take 16 (drop 9 plain)),
                         aesKey2 := Some (take 16 (drop 25 plain))\<rparr>)
        else (Inr (), ch\<lparr>aesKey2 := Some (take 16 (drop 9 plain)),
                         aesKey1 := Some (take 16 (drop 25 plain))\<rparr>))"
proof -
  have "at pkt 5 = Inr (elems pkt ! 5)" using len by (simp add: at_def)
  then show ?thesis
    unfolding processECM_def Let_def ecm_blocks_plain [OF key len] ecm_plaintext_def
    by simp
qed

lemma take3_magic:
  "3 \<le> length xs \<Longrightarrow>
   (take 3 xs = [a, b, c]) = (xs ! 0 = a \<and> xs ! 1 = b \<and> xs ! 2 = c)"
  by (cases xs; cases "tl xs"; cases "tl (tl xs)") auto

lemma processECM_success:
  assumes "processECM ch pkt = (Inr u, ch')" and "93 \<le> slen pkt"
  shows "\<exists>k. NewCipher (DecodeString (masterKey ch)) = Some k"
  using assms processECM_nil_cipher [of ch pkt] by (cases "NewCipher (DecodeString (masterKey ch))") auto

text \<open>
  C5. A 188-byte TS packet whose scrambling control is below 2, or whose selected working
  key is not installed, leaves the descrambler byte for byte as it came.
\<close>

theorem C5_pass_through:
  "slen pkt = 188 \<Longrightarrow>
   scramble_bits pkt < 2 \<or> select_key ch (scramble_bits pkt) = None \<Longrightarrow>
   decryptPacket ch pkt = Inr pkt"
  by (rule decryptPacket_passes) simp_all

theorem C5_pass_through_witness:
  "decryptPacket keyed_channel (ts_packet 0x50 184) = Inr (ts_packet 0x50 184) \<and>
   decryptPacket (newChannel zero_key_hex True) (ts_packet 0xd0 184) = Inr (ts_packet 0xd0 184)"
  using C5_pass_through [of "ts_packet 0x50 184" keyed_channel]
    C5_pass_through [of "ts_packet 0xd0 184" "newChannel zero_key_hex True"]
  by (simp add: ts_packet_def slen_def scramble_bits_def select_key_def newChannel_def)

text \<open>
  C4. With both working keys installed (16 bytes each) and a scrambling control of 2 or 3,
  the descrambler replaces the body from byte 4 by its AES-ECB decryption under the
  selected key, block by block while more than 16 bytes remain: of a packet of \<open>n\<close> bytes
  it decrypts \<open>(n - 5) div 16\<close> blocks, and leaves the four header bytes and the final
  fragment of 1 to 16 bytes as they are. For a 188-byte packet these are 11 blocks and a
  fragment of 8 bytes.
\<close>

theorem C4_descramble:
  assumes "4 < slen pkt"
    and "\<not> scramble_bits pkt < 2"
    and "aesKey1 ch = Some k1" and "length k1 = 16"
    and "aesKey2 ch = Some k2" and "length k2 = 16"
  shows "decryptPacket ch pkt =
     Inr (pkt\<lparr>elems := take 4 (elems pkt) @
            ecb_decrypt (if scramble_bits pkt = 2 then k2 else k1)
              (take (16 * ((slen pkt - 5) div 16)) (drop 4 (elems pkt))) @
            drop (4 + 16 * ((slen pkt - 5) div 16)) (elems pkt)\<rparr>) \<and>
    length (ecb_decrypt (if scramble_bits pkt = 2 then k2 else k1)
              (take (16 * ((slen pkt - 5) div 16)) (drop 4 (elems pkt)))) = 16 * ((slen pkt - 5) div 16) \<and>
    0 < length (drop (4 + 16 * ((slen pkt - 5) div 16)) (elems pkt)) \<and>
    length (drop (4 + 16 * ((slen pkt - 5) div 16)) (elems pkt)) \<le> 16 \<and>
    (if slen pkt = 188 then (slen pkt - 5) div 16 = 11 else True)"
proof -
  let ?k = "if scramble_bits pkt = 2 then k2 else k1"
  let ?n = "(slen pkt - 5) div 16"
  have k: "16 \<le> length ?k" using assms by simp
  have "16 * ?n \<le> slen pkt - 5" by (rule times_div_less_eq_dividend)
  then have le: "16 * ?n \<le> slen pkt - 4" by simp
  have "length (take (16 * ?n) (drop 4 (elems pkt))) = 16 * ?n"
    using le by (simp add: slen_def)
  then have L: "length (ecb_decrypt ?k (take (16 * ?n) (drop 4 (elems pkt)))) = 16 * ?n"
    by (simp only: length_ecb_decrypt [OF k]) simp
  have "16 * ?n + (slen pkt - 5) mod 16 = slen pkt - 5" by (rule mult_div_mod_eq)
  moreover have "(slen pkt - 5) mod 16 < 16" by simp
  ultimately have T: "0 < slen pkt - (4 + 16 * ?n) \<and> slen pkt - (4 + 16 * ?n) \<le> 16"
    using assms(1) by linarith
  show ?thesis
    using decryptPacket_descrambles [of pkt ch k1 k2] assms L T
    by (simp add: slen_def)
qed

theorem C4_descramble_witness:
  "decryptPacket keyed_channel (ts_packet 0xd0 184) =
     Inr ((ts_packet 0xd0 184)\<lparr>elems := [0x47, 0x00, 0x64, 0xd0] @
            ecb_decrypt key_a (replicate 176 0) @ replicate 8 0\<rparr>) \<and>
   decryptPacket keyed_channel (ts_packet 0x90 32) =
     Inr ((ts_packet 0x90 32)\<lparr>elems := [0x47, 0x00, 0x64, 0x90] @
            ecb_decrypt key_b (replicate 16 0) @ replicate 16 0\<rparr>)"
  using C4_descramble [of "ts_packet 0xd0 184" keyed_channel key_a key_b]
    C4_descramble [of "ts_packet 0x90 32" keyed_channel key_a key_b]
  by (simp add: ts_packet_def slen_def scramble_bits_def keyed_channel_def key_a_def key_b_def
      newChannel_def)

end
